theory Spec2Isabelle
  imports Main
begin

section \<open>Strings, exceptions and parsed pages\<close>

text \<open>
  A Python \<open>str\<close> is a sequence of Unicode code points; a code point is a natural number.
  The characters the program names are U+FF1F and U+FF01 (full-width question and
  exclamation mark), \<open>?\<close> (63), \<open>!\<close> (33), \<open>/\<close> (47), \<open>_\<close> (95), the tab (9) and the
  newline (10).
\<close>

type_synonym pystr = "nat list"

definition u :: "string \<Rightarrow> pystr" where
  \<comment> \<open>an ASCII literal as a Python string\<close>
  "u s = map of_char s"

text \<open>
  The exceptions the program can meet. \<open>LyricsNotFoundError\<close> is the class the module
  declares; the next four are raised by the interpreter on the expressions of the module;
  \<open>External\<close> is any exception raised inside the HTTP or parsing library.
\<close>

datatype exn =
    LyricsNotFoundError
  | IndexError
  | AttributeError
  | TypeError
  | ValueError
  | External pystr

text \<open>
  A \<open>bs4\<close> tag, as far as the program observes one: its \<open>.text\<close>, the value of
  \<open>.get("href")\<close> (\<open>None\<close> when the attribute is absent), its markup \<open>str(tag)\<close> and the
  elements \<open>select\<close> finds under it for a selector. A parsed page is a tag as well.
\<close>

datatype tag =
  Tag (tag_text: pystr) (tag_href: "pystr option") (tag_str: pystr)
      (tag_select: "pystr \<Rightarrow> tag list")

definition select_one :: "tag \<Rightarrow> pystr \<Rightarrow> tag option" where
  \<comment> \<open>the first element \<open>select\<close> finds, or \<open>None\<close>\<close>
  "select_one t sel = (case tag_select t sel of [] \<Rightarrow> None | x # _ \<Rightarrow> Some x)"

section \<open>The searcher base class\<close>

text \<open>
  An instance of a concrete \<open>LyricsSearcher\<close> subclass: the three attributes the
  constructor stores and the values of the abstract properties the subclass defines.
  \<open>preprocess_title\<close> is the identity in every class of the module, so \<open>title\<close> is the
  title given to the constructor.
\<close>

record LyricsSearcher =
  artist :: pystr
  title :: pystr
  strict :: bool
  search_result_css_selector :: pystr
  search_result_artist_css_selector :: pystr
  search_result_lyrics_link_css_selector :: pystr
  lyrics_base_url :: pystr
  lyrics_css_selector :: pystr
  search_url :: pystr
  postprocess :: "pystr \<Rightarrow> pystr"

text \<open>
  \<open>suggested_artist[0].lower() == self.artist[0].lower()\<close>. Indexing an empty string
  raises \<open>IndexError\<close>; the left operand is evaluated first. \<open>str.lower\<close> follows the
  Unicode case tables of the interpreter, which are not part of the program: it is the
  parameter \<open>lower\<close>.
\<close>

definition first_lower_eq :: "(pystr \<Rightarrow> pystr) \<Rightarrow> pystr \<Rightarrow> pystr \<Rightarrow> exn + bool" where
  "first_lower_eq lower suggested_artist a =
     (case suggested_artist of
        [] \<Rightarrow> Inl IndexError
      | c # _ \<Rightarrow> (case a of
                    [] \<Rightarrow> Inl IndexError
                  | d # _ \<Rightarrow> Inr (lower [c] = lower [d])))"

text \<open>
  \<open>self.lyrics_base_url + candidate.select_one(link_selector).get("href")\<close>: an
  \<open>AttributeError\<close> when no element matches the link selector, a \<open>TypeError\<close> when the
  element has no \<open>href\<close>.
\<close>

definition suggested_url :: "LyricsSearcher \<Rightarrow> tag \<Rightarrow> exn + pystr" where
  "suggested_url self candidate =
     (case select_one candidate (search_result_lyrics_link_css_selector self) of
        None \<Rightarrow> Inl AttributeError
      | Some l \<Rightarrow> (case tag_href l of
                     None \<Rightarrow> Inl TypeError
                   | Some href \<Rightarrow> Inr (lyrics_base_url self @ href)))"

text \<open>
  The loop of \<open>find_lyrics_link\<close>; \<open>n\<close> is \<open>len(candidates)\<close> of the whole sequence.
  The three tests are made in the order of the \<open>if\<close>/\<open>elif\<close> chain, and
  \<open>and\<close> does not evaluate its right operand when the left one is false.
\<close>

fun find_lyrics_link_loop ::
  "(pystr \<Rightarrow> pystr) \<Rightarrow> LyricsSearcher \<Rightarrow> nat \<Rightarrow> tag list \<Rightarrow> exn + pystr" where
  "find_lyrics_link_loop lower self n [] = Inl LyricsNotFoundError"
| "find_lyrics_link_loop lower self n (candidate # rest) =
     (case select_one candidate (search_result_artist_css_selector self) of
        None \<Rightarrow> find_lyrics_link_loop lower self n rest
      | Some a \<Rightarrow>
          (case suggested_url self candidate of
             Inl e \<Rightarrow> Inl e
           | Inr url \<Rightarrow>
               (case (if n = 1 then first_lower_eq lower (tag_text a) (artist self)
                      else Inr False) of
                  Inl e \<Rightarrow> Inl e
                | Inr True \<Rightarrow> Inr url
                | Inr False \<Rightarrow>
                    if tag_text a = artist self then Inr url
                    else (case (if \<not> strict self
                                then first_lower_eq lower (tag_text a) (artist self)
                                else Inr False) of
                            Inl e \<Rightarrow> Inl e
                          | Inr True \<Rightarrow> Inr url
                          | Inr False \<Rightarrow> find_lyrics_link_loop lower self n rest))))"

definition find_lyrics_link ::
  "(pystr \<Rightarrow> pystr) \<Rightarrow> LyricsSearcher \<Rightarrow> tag list \<Rightarrow> exn + pystr" where
  "find_lyrics_link lower self candidates =
     find_lyrics_link_loop lower self (length candidates) candidates"

section \<open>Fetching\<close>

text \<open>
  The network and the HTML parser are outside the program. \<open>web\<close> is what
  \<open>BeautifulSoup(requests.get(url).content, "lxml")\<close> gives for a URL after the requests
  made so far: the parsed page, or the exception the library raises. \<open>requested\<close> lists
  the URLs of the GET requests made so far, oldest first.
\<close>

record world =
  web :: "pystr list \<Rightarrow> pystr \<Rightarrow> pystr + tag"
  requested :: "pystr list"

definition requests_get :: "pystr \<Rightarrow> world \<Rightarrow> (exn + tag) \<times> world" where
  "requests_get url w =
     ((case web w (requested w) url of
         Inl m \<Rightarrow> Inl (External m)
       | Inr page \<Rightarrow> Inr page),
      w\<lparr>requested := requested w @ [url]\<rparr>)"

definition get_lyrics_url ::
  "(pystr \<Rightarrow> pystr) \<Rightarrow> LyricsSearcher \<Rightarrow> world \<Rightarrow> (exn + pystr) \<times> world" where
  "get_lyrics_url lower self w =
     (case requests_get (search_url self) w of
        (Inl e, w') \<Rightarrow> (Inl e, w')
      | (Inr soup, w') \<Rightarrow>
          (find_lyrics_link lower self (tag_select soup (search_result_css_selector self)),
           w'))"

definition py_str :: "tag option \<Rightarrow> pystr" where
  \<comment> \<open>\<open>str(extracted)\<close>: the markup of a tag, and the text \<open>None\<close> for \<open>None\<close>\<close>
  "py_str extracted = (case extracted of None \<Rightarrow> u ''None'' | Some t \<Rightarrow> tag_str t)"

definition get_lyrics ::
  "(pystr \<Rightarrow> pystr) \<Rightarrow> LyricsSearcher \<Rightarrow> world \<Rightarrow> (exn + pystr) \<times> world" where
  "get_lyrics lower self w =
     (case get_lyrics_url lower self w of
        (Inl e, w') \<Rightarrow> (Inl e, w')
      | (Inr url, w') \<Rightarrow>
          (case requests_get url w' of
             (Inl e, w'') \<Rightarrow> (Inl e, w'')
           | (Inr soup, w'') \<Rightarrow>
               (Inr (postprocess self (py_str (select_one soup (lyrics_css_selector self)))),
                w'')))"

section \<open>Post-processing utilities\<close>

text \<open>
  \<open>re.sub(pattern, repl, target)\<close> for a pattern given by the length of its match at the
  head of the remaining input (\<open>None\<close>: no match here). Matches are taken from left to
  right and do not overlap; \<open>skip\<close> counts the characters of the current match still to
  be dropped. No pattern of the module matches the empty string.
\<close>

fun re_sub :: "(pystr \<Rightarrow> nat option) \<Rightarrow> pystr \<Rightarrow> nat \<Rightarrow> pystr \<Rightarrow> pystr" where
  "re_sub m repl skip [] = []"
| "re_sub m repl (Suc k) (c # cs) = re_sub m repl k cs"
| "re_sub m repl 0 (c # cs) =
     (case m (c # cs) of
        Some (Suc k) \<Rightarrow> repl @ re_sub m repl k cs
      | _ \<Rightarrow> c # re_sub m repl 0 cs)"

fun match_alternatives :: "pystr list \<Rightarrow> pystr \<Rightarrow> nat option" where
  \<comment> \<open>an alternation of literals: the first alternative that is a prefix of the input\<close>
  "match_alternatives [] s = None"
| "match_alternatives (p # ps) s =
     (if take (length p) s = p then Some (length p) else match_alternatives ps s)"

fun lazy_dot_gt :: "pystr \<Rightarrow> nat option" where
  \<comment> \<open>\<open>.*?>\<close>: up to the first \<open>>\<close> (62); the dot does not match a newline (10)\<close>
  "lazy_dot_gt [] = None"
| "lazy_dot_gt (c # cs) =
     (if c = 62 then Some 1
      else if c = 10 then None
      else map_option Suc (lazy_dot_gt cs))"

definition match_surrounding :: "pystr \<Rightarrow> pystr \<Rightarrow> nat option" where
  \<comment> \<open>the pattern \<open>(<tag.*?>|</tag>)\<close>\<close>
  "match_surrounding tg s =
     (let opening = u ''<'' @ tg;
          from_opening =
            (if take (length opening) s = opening
             then map_option (\<lambda>k. length opening + k) (lazy_dot_gt (drop (length opening) s))
             else None)
      in case from_opening of
           Some k \<Rightarrow> Some k
         | None \<Rightarrow> match_alternatives [u ''</'' @ tg @ u ''>''] s)"

definition remove_surrounding :: "pystr \<Rightarrow> pystr \<Rightarrow> pystr" where
  "remove_surrounding tg target = re_sub (match_surrounding tg) [] 0 target"

definition remove_p :: "pystr \<Rightarrow> pystr" where
  "remove_p target = remove_surrounding (u ''p'') target"

definition remove_div :: "pystr \<Rightarrow> pystr" where
  "remove_div target = remove_surrounding (u ''div'') target"

definition replace_br :: "pystr \<Rightarrow> pystr" where
  "replace_br target =
     (let close_removed = re_sub (match_alternatives [u ''</br>'']) [] 0 target
      in re_sub (match_alternatives [u ''<br>'', u ''<br/>'']) [10] 0 close_removed)"

section \<open>The concrete searchers\<close>

definition UtanetSearcher :: "pystr \<Rightarrow> pystr \<Rightarrow> bool \<Rightarrow> LyricsSearcher" where
  "UtanetSearcher a t s =
     \<lparr>artist = a, title = t, strict = s,
      search_result_css_selector = u ''#ichiran .result_table table tbody tr'',
      search_result_artist_css_selector = u ''.td2 a'',
      search_result_lyrics_link_css_selector = u ''.td1 a'',
      lyrics_base_url = u ''https://www.uta-net.com'',
      lyrics_css_selector = u ''#kashi_area'',
      search_url = u ''https://www.uta-net.com/search/?Aselect=2&Keyword='' @ t
                   @ u ''&Bselect=4&x=0&y=0'',
      postprocess = (\<lambda>target. replace_br (remove_div target))\<rparr>"

definition JLyricSearcher :: "pystr \<Rightarrow> pystr \<Rightarrow> bool \<Rightarrow> LyricsSearcher" where
  "JLyricSearcher a t s =
     \<lparr>artist = a, title = t, strict = s,
      search_result_css_selector = u ''#bas #cnt #mnb .bdy'',
      search_result_artist_css_selector = u ''.sml a'',
      search_result_lyrics_link_css_selector = u ''.mid a'',
      lyrics_base_url = [],
      lyrics_css_selector = u ''#Lyric'',
      search_url = u ''http://search.j-lyric.net/index.php?kt='' @ t @ u ''&ct=2&ka='' @ a
                   @ u ''&ca=2'',
      postprocess = (\<lambda>target. replace_br (remove_p target))\<rparr>"

definition JLyricTitleSearcher :: "pystr \<Rightarrow> pystr \<Rightarrow> bool \<Rightarrow> LyricsSearcher" where
  \<comment> \<open>the subclass of \<open>JLyricSearcher\<close> that overrides \<open>search_url\<close> only\<close>
  "JLyricTitleSearcher a t s =
     (JLyricSearcher a t s)
       \<lparr>search_url := u ''http://search.j-lyric.net/index.php?kt='' @ t @ u ''&ct=2&ka=&ca=2''\<rparr>"

definition PetitLyricsSearcher :: "pystr \<Rightarrow> pystr \<Rightarrow> bool \<Rightarrow> LyricsSearcher" where
  "PetitLyricsSearcher a t s =
     \<lparr>artist = a, title = t, strict = s,
      search_result_css_selector = u ''#lyrics_list tr'',
      search_result_artist_css_selector = u ''td:nth-of-type(2) a:nth-of-type(2)'',
      search_result_lyrics_link_css_selector = u ''td:nth-of-type(2) a:nth-of-type(1)'',
      lyrics_base_url = u ''https://petitlyrics.com/'',
      lyrics_css_selector = u ''#lyrics'',
      search_url = u ''https://petitlyrics.com/search_lyrics?title='' @ t,
      postprocess =
        (\<lambda>target. remove_surrounding (u ''canvas'') (replace_br (remove_div target)))\<rparr>"

section \<open>The orchestrator\<close>

text \<open>
  \<open>searcher(artist, title, strict=self.strict).get_lyrics()\<close> for one entry of
  \<open>searcher_classes\<close>: any class with that constructor and method, acting on a
  state of type \<open>'w\<close>.
\<close>

type_synonym 'w searcher_class =
  "pystr \<Rightarrow> pystr \<Rightarrow> bool \<Rightarrow> 'w \<Rightarrow> (exn + pystr) \<times> 'w"

definition searcher_class ::
  "(pystr \<Rightarrow> pystr) \<Rightarrow> (pystr \<Rightarrow> pystr \<Rightarrow> bool \<Rightarrow> LyricsSearcher) \<Rightarrow> world searcher_class" where
  \<comment> \<open>a subclass of \<open>LyricsSearcher\<close> as such an entry\<close>
  "searcher_class lower cls a t s = get_lyrics lower (cls a t s)"

record 'w MutipleLyricsSearcher =
  searcher_classes :: "'w searcher_class list"
  multi_strict :: bool

fun search_loop ::
  "'w searcher_class list \<Rightarrow> bool \<Rightarrow> pystr \<Rightarrow> pystr \<Rightarrow> 'w \<Rightarrow> (exn + pystr) \<times> 'w" where
  "search_loop [] s a t w = (Inl LyricsNotFoundError, w)"
| "search_loop (searcher # rest) s a t w =
     (case searcher a t s w of
        (Inr lyrics, w') \<Rightarrow> (Inr lyrics, w')
      | (Inl e, w') \<Rightarrow>
          if e = LyricsNotFoundError then search_loop rest s a t w' else (Inl e, w'))"

definition search ::
  "'w MutipleLyricsSearcher \<Rightarrow> pystr \<Rightarrow> pystr \<Rightarrow> 'w \<Rightarrow> (exn + pystr) \<times> 'w" where
  "search self a t w = search_loop (searcher_classes self) (multi_strict self) a t w"

section \<open>The fuzzy title search\<close>

definition str_replace :: "nat \<Rightarrow> nat \<Rightarrow> pystr \<Rightarrow> pystr" where
  \<comment> \<open>\<open>s.replace(old, new)\<close> for one-character \<open>old\<close> and \<open>new\<close>\<close>
  "str_replace old new s = map (\<lambda>c. if c = old then new else c) s"

definition fuzzy_titles :: "pystr \<Rightarrow> pystr list" where
  "fuzzy_titles t =
     [t]
     @ (if 65311 \<in> set t \<or> 65281 \<in> set t
        then [str_replace 65281 33 (str_replace 65311 63 t)] else [])
     @ (if 63 \<in> set t \<or> 33 \<in> set t
        then [str_replace 33 65281 (str_replace 63 65311 t)] else [])"

fun fuzzy_loop ::
  "'w MutipleLyricsSearcher \<Rightarrow> pystr \<Rightarrow> pystr list \<Rightarrow> 'w \<Rightarrow> (exn + pystr) \<times> 'w" where
  "fuzzy_loop self a [] w = (Inl LyricsNotFoundError, w)"
| "fuzzy_loop self a (t # rest) w =
     (case search self a t w of
        (Inr lyrics, w') \<Rightarrow> (Inr lyrics, w')
      | (Inl e, w') \<Rightarrow>
          if e = LyricsNotFoundError then fuzzy_loop self a rest w' else (Inl e, w'))"

definition fuzzy_title_search ::
  "'w MutipleLyricsSearcher \<Rightarrow> pystr \<Rightarrow> pystr \<Rightarrow> 'w \<Rightarrow> (exn + pystr) \<times> 'w" where
  "fuzzy_title_search self a t w = fuzzy_loop self a (fuzzy_titles t) w"

section \<open>The batch driver\<close>

text \<open>
  \<open>fetch_lyrics.py\<close>. The state of a run: the files written under the working
  directory (path to content; opening with mode \<open>w\<close> replaces the content), the lines
  printed, and the network. The directory \<open>lyrics\<close> is taken to exist and the file
  system to accept every name.
\<close>

record driver =
  files :: "pystr \<rightharpoonup> pystr"
  stdout :: "pystr list"
  net :: world

fun split_on :: "nat \<Rightarrow> pystr \<Rightarrow> pystr list" where
  \<comment> \<open>\<open>s.split(sep)\<close> for a one-character separator\<close>
  "split_on sep [] = [[]]"
| "split_on sep (c # cs) =
     (if c = sep then [] # split_on sep cs
      else (case split_on sep cs of
              [] \<Rightarrow> [[c]]
            | f # fs \<Rightarrow> (c # f) # fs))"

definition rstrip_newline :: "pystr \<Rightarrow> pystr" where
  \<comment> \<open>\<open>line.rstrip("\n")\<close> removes every trailing newline\<close>
  "rstrip_newline line = rev (dropWhile (\<lambda>c. c = 10) (rev line))"

definition searcher_list :: "(pystr \<Rightarrow> pystr) \<Rightarrow> world searcher_class list" where
  "searcher_list lower =
     [searcher_class lower JLyricSearcher,
      searcher_class lower UtanetSearcher,
      searcher_class lower PetitLyricsSearcher,
      searcher_class lower JLyricTitleSearcher]"

definition lyrics_path :: "pystr \<Rightarrow> pystr \<Rightarrow> pystr" where
  \<comment> \<open>\<open>"lyrics/" + f"{artist}-{title}".replace("/", "_")\<close>\<close>
  "lyrics_path a t = u ''lyrics/'' @ str_replace 47 95 (a @ u ''-'' @ t)"

text \<open>
  One iteration of the loop over the lines of the input file. The result is the exception
  that ends the run, if any, and the state reached.
\<close>

definition process_line ::
  "(pystr \<Rightarrow> pystr) \<Rightarrow> pystr \<Rightarrow> driver \<Rightarrow> exn option \<times> driver" where
  "process_line lower line st =
     (case split_on 9 (rstrip_newline line) of
        [t, a] \<Rightarrow>
          (let searcher = \<lparr>searcher_classes = searcher_list lower, multi_strict = False\<rparr>
           in case fuzzy_title_search searcher a t (net st) of
                (Inl e, w') \<Rightarrow>
                  if e = LyricsNotFoundError
                  then (None, st\<lparr>stdout := stdout st @ [u ''Lyrics not found: '' @ t @ u '' - '' @ a],
                                  net := w'\<rparr>)
                  else (Some e, st\<lparr>net := w'\<rparr>)
              | (Inr lyrics, w') \<Rightarrow>
                  (None, st\<lparr>files := (files st)(lyrics_path a t \<mapsto> lyrics),
                             stdout := stdout st @ [u ''Lyrics found: '' @ t @ u ''_'' @ a @ u ''.txt''],
                             net := w'\<rparr>))
      | _ \<Rightarrow> (Some ValueError, st))"

fun main_loop :: "(pystr \<Rightarrow> pystr) \<Rightarrow> pystr list \<Rightarrow> driver \<Rightarrow> exn option \<times> driver" where
  "main_loop lower [] st = (None, st)"
| "main_loop lower (line # rest) st =
     (case process_line lower line st of
        (Some e, st') \<Rightarrow> (Some e, st')
      | (None, st') \<Rightarrow> main_loop lower rest st')"

section \<open>Notions used to state the properties\<close>

definition ascii_lower :: "pystr \<Rightarrow> pystr" where
  \<comment> \<open>\<open>str.lower\<close> on ASCII text, an instance of the parameter \<open>lower\<close>\<close>
  "ascii_lower s = map (\<lambda>c. if 65 \<le> c \<and> c \<le> 90 then c + 32 else c) s"

text \<open>
  A searcher class that records each of its invocations: its position in the list, the
  three constructor arguments and the outcome of \<open>get_lyrics\<close>.
\<close>

type_synonym call = "nat \<times> pystr \<times> pystr \<times> bool \<times> (exn + pystr)"

definition recording :: "nat \<Rightarrow> 'w searcher_class \<Rightarrow> ('w \<times> call list) searcher_class" where
  "recording i cls a t s =
     (\<lambda>(w, calls). case cls a t s w of (r, w') \<Rightarrow> (r, (w', calls @ [(i, a, t, s, r)])))"

definition recording_all :: "'w searcher_class list \<Rightarrow> ('w \<times> call list) searcher_class list" where
  "recording_all clss = map (\<lambda>(i, cls). recording i cls) (enumerate 0 clss)"

text \<open>
  The matching rule for a sequence of more than one candidate, in the words of the
  specification: the artist field is present, and it equals the query artist or, when
  strictness is disabled, both have a first character and the two are equal up to case.
\<close>

definition first_char_ci_eq :: "(pystr \<Rightarrow> pystr) \<Rightarrow> pystr \<Rightarrow> pystr \<Rightarrow> bool" where
  "first_char_ci_eq lower x y =
     (case x of [] \<Rightarrow> False | c # _ \<Rightarrow> (case y of [] \<Rightarrow> False | d # _ \<Rightarrow> lower [c] = lower [d]))"

definition artist_matches :: "(pystr \<Rightarrow> pystr) \<Rightarrow> LyricsSearcher \<Rightarrow> tag \<Rightarrow> bool" where
  "artist_matches lower self candidate =
     (case select_one candidate (search_result_artist_css_selector self) of
        None \<Rightarrow> False
      | Some a \<Rightarrow> tag_text a = artist self
                  \<or> (\<not> strict self \<and> first_char_ci_eq lower (tag_text a) (artist self)))"

definition has_url :: "LyricsSearcher \<Rightarrow> tag \<Rightarrow> bool" where
  \<comment> \<open>the candidate has a link element, and the element has an \<open>href\<close>\<close>
  "has_url self candidate = (case suggested_url self candidate of Inl _ \<Rightarrow> False | Inr _ \<Rightarrow> True)"

definition selection_precondition :: "LyricsSearcher \<Rightarrow> tag list \<Rightarrow> bool" where
  \<comment> \<open>the query artist is not empty; every candidate with an artist field has a non-empty
      artist text and a link with an \<open>href\<close>\<close>
  "selection_precondition self candidates =
     (artist self \<noteq> []
      \<and> list_all (\<lambda>c. case select_one c (search_result_artist_css_selector self) of
                        None \<Rightarrow> True
                      | Some a \<Rightarrow> tag_text a \<noteq> [] \<and> has_url self c)
                 candidates)"

text \<open>
  A candidate the loop passes over, the whole sequence having \<open>n\<close> entries: it has no
  artist field; or it has a link with an \<open>href\<close>, its artist text differs from the
  query artist, and each first-character test made on it (the one for a sequence of one
  entry, the one for disabled strictness) is evaluated and fails.
\<close>

definition passed_over :: "(pystr \<Rightarrow> pystr) \<Rightarrow> LyricsSearcher \<Rightarrow> nat \<Rightarrow> tag \<Rightarrow> bool" where
  "passed_over lower self n c =
     (case select_one c (search_result_artist_css_selector self) of
        None \<Rightarrow> True
      | Some a \<Rightarrow>
          has_url self c
          \<and> (n = 1 \<longrightarrow> first_lower_eq lower (tag_text a) (artist self) = Inr False)
          \<and> tag_text a \<noteq> artist self
          \<and> (\<not> strict self \<longrightarrow> first_lower_eq lower (tag_text a) (artist self) = Inr False))"

text \<open>
  Pages for concrete runs: an element with a text and an \<open>href\<close>, a result row with
  the elements its artist and link selectors find, and a page on which one selector
  finds the given elements.
\<close>

definition element :: "pystr \<Rightarrow> pystr option \<Rightarrow> tag" where
  "element txt href = Tag txt href [] (\<lambda>sel. [])"

definition result_row :: "LyricsSearcher \<Rightarrow> tag list \<Rightarrow> tag list \<Rightarrow> tag" where
  "result_row self artists links =
     Tag [] None []
       (\<lambda>sel. if sel = search_result_artist_css_selector self then artists
              else if sel = search_result_lyrics_link_css_selector self then links
              else [])"

definition page :: "pystr \<Rightarrow> tag list \<Rightarrow> tag" where
  "page selector found = Tag [] None [] (\<lambda>sel. if sel = selector then found else [])"

definition example_web ::
  "LyricsSearcher \<Rightarrow> tag list \<Rightarrow> pystr \<Rightarrow> tag list \<Rightarrow> pystr list \<Rightarrow> pystr \<Rightarrow> pystr + tag" where
  \<comment> \<open>a network that serves the search page of one searcher with the given rows, one
      lyrics page with the given lyrics containers, and an empty page for any other URL\<close>
  "example_web self rows lyrics_url found history url =
     (if url = search_url self then Inr (page (search_result_css_selector self) rows)
      else if url = lyrics_url then Inr (page (lyrics_css_selector self) found)
      else Inr (page [] []))"

definition example_world :: "LyricsSearcher \<Rightarrow> tag list \<Rightarrow> pystr \<Rightarrow> tag list \<Rightarrow> world" where
  "example_world self rows lyrics_url found =
     \<lparr>web = example_web self rows lyrics_url found, requested = []\<rparr>"

definition flumpool_world :: world where
  "flumpool_world =
     example_world (PetitLyricsSearcher (u ''flumpool'') [34174] False)
       [result_row (PetitLyricsSearcher (u ''flumpool'') [34174] False)
          [element (u ''flumpool'') None] [element [34174] (Some (u ''lyrics/12345''))]]
       (u ''https://petitlyrics.com/lyrics/12345'')
       [Tag [] None (u ''<div id=lyrics>la<br/>la</div>'') (\<lambda>sel. [])]"

text \<open>
  URL-encoding of a value, in the words of the specification: the unreserved characters
  of RFC 3986 (letters, digits, \<open>-\<close>, \<open>.\<close>, \<open>_\<close>, \<open>~\<close>) stand for themselves, and every
  other character is written as the bytes of its UTF-8 encoding, each as \<open>%\<close> and two
  hexadecimal digits.
\<close>

definition unreserved :: "nat \<Rightarrow> bool" where
  "unreserved c =
     ((65 \<le> c \<and> c \<le> 90) \<or> (97 \<le> c \<and> c \<le> 122) \<or> (48 \<le> c \<and> c \<le> 57)
      \<or> c = 45 \<or> c = 46 \<or> c = 95 \<or> c = 126)"

definition utf8 :: "nat \<Rightarrow> nat list" where
  "utf8 c =
     (if c < 128 then [c]
      else if c < 2048 then [192 + c div 64, 128 + c mod 64]
      else if c < 65536 then [224 + c div 4096, 128 + (c div 64) mod 64, 128 + c mod 64]
      else [240 + c div 262144, 128 + (c div 4096) mod 64, 128 + (c div 64) mod 64,
            128 + c mod 64])"

definition hex_digit :: "nat \<Rightarrow> nat" where
  "hex_digit d = (if d < 10 then 48 + d else 55 + d)"

definition percent :: "nat \<Rightarrow> pystr" where
  "percent b = [37, hex_digit (b div 16), hex_digit (b mod 16)]"

definition url_encode :: "pystr \<Rightarrow> pystr" where
  "url_encode s = concat (map (\<lambda>c. if unreserved c then [c] else concat (map percent (utf8 c))) s)"

text \<open>
  The two punctuation variants of a title, character by character: every full-width
  question or exclamation mark made half-width, and every half-width one made
  full-width; every other character is kept.
\<close>

definition halfwidth :: "pystr \<Rightarrow> pystr" where
  "halfwidth t = map (\<lambda>c. if c = 65311 then 63 else if c = 65281 then 33 else c) t"

definition fullwidth :: "pystr \<Rightarrow> pystr" where
  "fullwidth t = map (\<lambda>c. if c = 63 then 65311 else if c = 33 then 65281 else c) t"

section \<open>Facts about the concrete pages\<close>

lemma utanet_fields:
  "search_result_artist_css_selector (UtanetSearcher a t s) = u ''.td2 a''"
  "search_result_lyrics_link_css_selector (UtanetSearcher a t s) = u ''.td1 a''"
  "lyrics_base_url (UtanetSearcher a t s) = u ''https://www.uta-net.com''"
  "artist (UtanetSearcher a t s) = a"
  "strict (UtanetSearcher a t s) = s"
  by (simp_all add: UtanetSearcher_def)

lemma row_select:
  "select_one (result_row (UtanetSearcher a t s) (x # xs) ls) (u ''.td2 a'') = Some x"
  "select_one (result_row (UtanetSearcher a t s) as (l # ls)) (u ''.td1 a'') = Some l"
  "select_one (result_row (UtanetSearcher a t s) [] ls) (u ''.td2 a'') = None"
  "select_one (result_row (UtanetSearcher a t s) as []) (u ''.td1 a'') = None"
  by (simp_all add: select_one_def result_row_def utanet_fields u_def)

lemmas run_defs =
  get_lyrics_def get_lyrics_url_def requests_get_def find_lyrics_link_def
  first_lower_eq_def suggested_url_def select_one_def py_str_def
  example_world_def example_web_def page_def result_row_def element_def ascii_lower_def
  replace_br_def remove_div_def remove_p_def remove_surrounding_def match_surrounding_def

lemmas run_defs2 =
  get_lyrics_def get_lyrics_url_def requests_get_def find_lyrics_link_def
  first_lower_eq_def suggested_url_def select_one_def py_str_def
  example_world_def example_web_def page_def result_row_def element_def ascii_lower_def
  replace_br_def remove_div_def remove_p_def remove_surrounding_def match_surrounding_def
  fuzzy_title_search_def fuzzy_titles_def search_def searcher_list_def searcher_class_def
  UtanetSearcher_def JLyricSearcher_def JLyricTitleSearcher_def PetitLyricsSearcher_def
  flumpool_world_def

lemma fz1:
  "fuzzy_title_search \<lparr>searcher_classes = searcher_list ascii_lower, multi_strict = False\<rparr>
     (u ''Y'') (u ''X'') flumpool_world
   = (Inl LyricsNotFoundError,
      flumpool_world\<lparr>requested :=
        [u ''http://search.j-lyric.net/index.php?kt=X&ct=2&ka=Y&ca=2'',
         u ''https://www.uta-net.com/search/?Aselect=2&Keyword=X&Bselect=4&x=0&y=0'',
         u ''https://petitlyrics.com/search_lyrics?title=X'',
         u ''http://search.j-lyric.net/index.php?kt=X&ct=2&ka=&ca=2'']\<rparr>)"
  by (simp add: run_defs2 u_def)

lemma fz2:
  "fuzzy_title_search \<lparr>searcher_classes = searcher_list ascii_lower, multi_strict = False\<rparr>
     (u ''flumpool'') [34174]
     (flumpool_world\<lparr>requested :=
        [u ''http://search.j-lyric.net/index.php?kt=X&ct=2&ka=Y&ca=2'',
         u ''https://www.uta-net.com/search/?Aselect=2&Keyword=X&Bselect=4&x=0&y=0'',
         u ''https://petitlyrics.com/search_lyrics?title=X'',
         u ''http://search.j-lyric.net/index.php?kt=X&ct=2&ka=&ca=2'']\<rparr>)
   = (Inr (u ''la'' @ [10] @ u ''la''),
      flumpool_world\<lparr>requested :=
        [u ''http://search.j-lyric.net/index.php?kt=X&ct=2&ka=Y&ca=2'',
         u ''https://www.uta-net.com/search/?Aselect=2&Keyword=X&Bselect=4&x=0&y=0'',
         u ''https://petitlyrics.com/search_lyrics?title=X'',
         u ''http://search.j-lyric.net/index.php?kt=X&ct=2&ka=&ca=2'',
         u ''http://search.j-lyric.net/index.php?kt='' @ [34174] @ u ''&ct=2&ka=flumpool&ca=2'',
         u ''https://www.uta-net.com/search/?Aselect=2&Keyword='' @ [34174] @ u ''&Bselect=4&x=0&y=0'',
         u ''https://petitlyrics.com/search_lyrics?title='' @ [34174],
         u ''https://petitlyrics.com/lyrics/12345'']\<rparr>)"
  by (simp add: run_defs2 u_def)

section \<open>Candidate selection on a single candidate\<close>

text \<open>
  C3, as stated: a sequence of exactly one candidate whose artist field is present and
  whose artist text begins with the character the query artist begins with, up to case,
  is accepted and its lyrics URL returned. It fails for a candidate that has no link
  element: every condition of the claim holds of the row below, and the selection ends
  with \<open>AttributeError\<close>.
\<close>

theorem single_candidate_without_link:
  "select_one (result_row (UtanetSearcher (u ''abc'') (u ''T'') True) [element (u ''Axy'') None] [])
     (search_result_artist_css_selector (UtanetSearcher (u ''abc'') (u ''T'') True))
   = Some (element (u ''Axy'') None)
   \<and> tag_text (element (u ''Axy'') None) = 65 # u ''xy''
   \<and> artist (UtanetSearcher (u ''abc'') (u ''T'') True) = 97 # u ''bc''
   \<and> ascii_lower [65] = ascii_lower [97]
   \<and> find_lyrics_link ascii_lower (UtanetSearcher (u ''abc'') (u ''T'') True)
       [result_row (UtanetSearcher (u ''abc'') (u ''T'') True) [element (u ''Axy'') None] []]
     = Inl AttributeError"
  by (simp add: run_defs UtanetSearcher_def u_def)

text \<open>
  C3, amended. A sequence of exactly one candidate whose artist field is present, whose
  artist text begins with the character the query artist begins with, up to case, and
  which has a link element with an \<open>href\<close>, is accepted: the result is the base URL
  followed by that \<open>href\<close>, whatever the strictness flag and whether or not the two
  artist strings are equal.
\<close>

theorem single_candidate_first_character:
  assumes "select_one c (search_result_artist_css_selector self) = Some a"
    and "tag_text a = x # xs" and "artist self = y # ys"
    and "lower [x] = lower [y]"
    and "select_one c (search_result_lyrics_link_css_selector self) = Some l"
    and "tag_href l = Some h"
  shows "find_lyrics_link lower self [c] = Inr (lyrics_base_url self @ h)"
  using assms
  by (simp add: find_lyrics_link_def first_lower_eq_def suggested_url_def)

theorem single_candidate_first_character_witness:
  "u ''Axy'' \<noteq> u ''abc''
   \<and> find_lyrics_link ascii_lower (UtanetSearcher (u ''abc'') (u ''T'') True)
         [result_row (UtanetSearcher (u ''abc'') (u ''T'') True)
            [element (u ''Axy'') None] [element [] (Some (u ''/song/1/''))]]
       = Inr (u ''https://www.uta-net.com/song/1/'')"
proof -
  let ?self = "UtanetSearcher (u ''abc'') (u ''T'') True"
  let ?c = "result_row ?self [element (u ''Axy'') None] [element [] (Some (u ''/song/1/''))]"
  have h1: "select_one ?c (search_result_artist_css_selector ?self) = Some (element (u ''Axy'') None)"
    by (simp add: row_select utanet_fields)
  have h2: "tag_text (element (u ''Axy'') None) = 65 # u ''xy''"
    by (simp add: element_def u_def)
  have h3: "artist ?self = 97 # u ''bc''"
    by (simp add: utanet_fields u_def)
  have h4: "ascii_lower [65] = ascii_lower [97]"
    by (simp add: ascii_lower_def)
  have h5: "select_one ?c (search_result_lyrics_link_css_selector ?self)
            = Some (element [] (Some (u ''/song/1/'')))"
    by (simp add: row_select utanet_fields)
  have h6: "tag_href (element [] (Some (u ''/song/1/''))) = Some (u ''/song/1/'')"
    by (simp add: element_def)
  have cat: "lyrics_base_url ?self @ u ''/song/1/'' = u ''https://www.uta-net.com/song/1/''"
    by (simp add: utanet_fields u_def)
  have ne: "u ''Axy'' \<noteq> u ''abc''"
    by (simp add: u_def)
  from single_candidate_first_character[OF h1 h2 h3 h4 h5 h6] cat ne show ?thesis
    by simp
qed

section \<open>Properties of the orchestrator\<close>

lemma recording_apply:
  "recording i cls a t s (w, calls) =
     (case cls a t s w of (r, w') \<Rightarrow> (r, (w', calls @ [(i, a, t, s, r)])))"
  by (simp add: recording_def)

lemma search_loop_recording:
  "search_loop (map (\<lambda>(i, cls). recording i cls) (enumerate n clss)) s a t (w, cs0) = (r, (w', calls))
   \<Longrightarrow> search_loop clss s a t w = (r, w')
       \<and> (\<exists>k. calls = cs0 @ map (\<lambda>i. (n + i, a, t, s, Inl LyricsNotFoundError)) [0..<k]
                          @ (if r = Inl LyricsNotFoundError then [] else [(n + k, a, t, s, r)])
              \<and> (if r = Inl LyricsNotFoundError then k = length clss else k < length clss))"
proof (induction clss arbitrary: n w cs0)
  case Nil
  then show ?case by auto
next
  case (Cons cls clss)
  obtain r1 w1 where step: "cls a t s w = (r1, w1)" by (cases "cls a t s w")
  show ?case
  proof (cases "r1 = Inl LyricsNotFoundError")
    case True
    with Cons.prems step
    have "search_loop (map (\<lambda>(i, cls). recording i cls) (enumerate (Suc n) clss)) s a t
            (w1, cs0 @ [(n, a, t, s, Inl LyricsNotFoundError)]) = (r, (w', calls))"
      by (simp add: recording_apply)
    from Cons.IH[OF this] obtain k where
      plain: "search_loop clss s a t w1 = (r, w')" and
      calls: "calls = (cs0 @ [(n, a, t, s, Inl LyricsNotFoundError)])
                @ map (\<lambda>i. (Suc n + i, a, t, s, Inl LyricsNotFoundError)) [0..<k]
                @ (if r = Inl LyricsNotFoundError then [] else [(Suc n + k, a, t, s, r)])" and
      k: "if r = Inl LyricsNotFoundError then k = length clss else k < length clss"
      by blast
    have shift: "map (\<lambda>i. (n + i, a, t, s, Inl LyricsNotFoundError)) [0..<Suc k]
                 = (n, a, t, s, Inl LyricsNotFoundError)
                   # map (\<lambda>i. (Suc n + i, a, t, s, Inl LyricsNotFoundError)) [0..<k]"
      by (simp add: upt_conv_Cons map_Suc_upt[symmetric] del: upt_Suc)
    have "calls = cs0 @ map (\<lambda>i. (n + i, a, t, s, Inl LyricsNotFoundError)) [0..<Suc k]
                  @ (if r = Inl LyricsNotFoundError then [] else [(n + Suc k, a, t, s, r)])"
      unfolding shift using calls by simp
    moreover have "if r = Inl LyricsNotFoundError then Suc k = length (cls # clss)
                   else Suc k < length (cls # clss)"
      using k by (simp split: if_splits)
    moreover have "search_loop (cls # clss) s a t w = (r, w')"
      using step True plain by simp
    ultimately show ?thesis by blast
  next
    case False
    with Cons.prems step have res: "r = r1" "w' = w1" "calls = cs0 @ [(n, a, t, s, r1)]"
      by (auto simp: recording_apply split: sum.splits)
    have "search_loop (cls # clss) s a t w = (r, w')"
      using step False res by (auto split: sum.splits)
    moreover have "calls = cs0 @ map (\<lambda>i. (n + i, a, t, s, Inl LyricsNotFoundError)) [0..<0]
                  @ (if r = Inl LyricsNotFoundError then [] else [(n + 0, a, t, s, r)])"
      using res False by simp
    ultimately show ?thesis using False res by (intro conjI exI[of _ 0]) auto
  qed
qed

text \<open>
  C1. For every list of searcher classes and every query, \<open>search\<close> invokes the
  classes in the order of the list, each with the same artist, title and strictness
  flag. The run with recording classes has the same result and final state as the run
  with the classes themselves, and its record is: the classes \<open>0, \<dots>, k - 1\<close>, each
  raising \<open>LyricsNotFoundError\<close>, followed by class \<open>k\<close> with the result of the whole
  search when that result is not \<open>LyricsNotFoundError\<close>, and by nothing otherwise. So
  the first success is returned and no later class is invoked; the search raises
  \<open>LyricsNotFoundError\<close> exactly when every class of the list was invoked and raised it;
  any other exception of a class is the result of the search.
\<close>

theorem search_tries_in_order:
  assumes "search \<lparr>searcher_classes = recording_all clss, multi_strict = s\<rparr> a t (w, []) = (r, (w', calls))"
  shows "search \<lparr>searcher_classes = clss, multi_strict = s\<rparr> a t w = (r, w')
         \<and> (\<exists>k. calls = map (\<lambda>i. (i, a, t, s, Inl LyricsNotFoundError)) [0..<k]
                          @ (if r = Inl LyricsNotFoundError then [] else [(k, a, t, s, r)])
                \<and> (if r = Inl LyricsNotFoundError then k = length clss else k < length clss))"
proof -
  from assms
  have "search_loop (map (\<lambda>(i, cls). recording i cls) (enumerate 0 clss)) s a t (w, []) = (r, (w', calls))"
    by (simp add: search_def recording_all_def)
  from search_loop_recording[OF this] obtain k where
    "search_loop clss s a t w = (r, w')"
    "calls = map (\<lambda>i. (i, a, t, s, Inl LyricsNotFoundError)) [0..<k]
               @ (if r = Inl LyricsNotFoundError then [] else [(k, a, t, s, r)])"
    "if r = Inl LyricsNotFoundError then k = length clss else k < length clss"
    by (auto cong: if_cong)
  then show ?thesis
    unfolding search_def by (intro conjI exI[of _ k]) simp_all
qed

theorem search_tries_in_order_witness:
  "search \<lparr>searcher_classes = recording_all
             [\<lambda>a t s w. (Inl LyricsNotFoundError, Suc w),
              \<lambda>a t s w. (Inl LyricsNotFoundError, Suc w),
              \<lambda>a t s w. (Inr (u ''la la''), Suc w),
              \<lambda>a t s w. (Inl TypeError, Suc w)],
           multi_strict = False\<rparr> (u ''A'') (u ''T'') (0::nat, [])
     = (Inr (u ''la la''),
        (3, [(0, u ''A'', u ''T'', False, Inl LyricsNotFoundError),
             (1, u ''A'', u ''T'', False, Inl LyricsNotFoundError),
             (2, u ''A'', u ''T'', False, Inr (u ''la la''))]))
   \<and> search \<lparr>searcher_classes =
             [\<lambda>a t s w. (Inl LyricsNotFoundError, Suc w),
              \<lambda>a t s w. (Inl LyricsNotFoundError, Suc w),
              \<lambda>a t s w. (Inr (u ''la la''), Suc w),
              \<lambda>a t s w. (Inl TypeError, Suc w)],
           multi_strict = False\<rparr> (u ''A'') (u ''T'') (0::nat)
     = (Inr (u ''la la''), 3)"
proof -
  let ?clss = "[\<lambda>a t s w. (Inl LyricsNotFoundError, Suc w),
              \<lambda>a t s w. (Inl LyricsNotFoundError, Suc w),
              \<lambda>a t s w. (Inr (u ''la la''), Suc w),
              \<lambda>a t s w. (Inl TypeError, Suc w)] :: nat searcher_class list"
  have run: "search \<lparr>searcher_classes = recording_all ?clss, multi_strict = False\<rparr>
               (u ''A'') (u ''T'') (0, [])
             = (Inr (u ''la la''),
                (3, [(0, u ''A'', u ''T'', False, Inl LyricsNotFoundError),
                     (1, u ''A'', u ''T'', False, Inl LyricsNotFoundError),
                     (2, u ''A'', u ''T'', False, Inr (u ''la la''))]))"
    by (simp add: search_def recording_all_def recording_apply numeral_3_eq_3)
  from search_tries_in_order[OF run] run show ?thesis by blast
qed

section \<open>Properties of the fuzzy title search\<close>

lemma fuzzy_loop_trace:
  "fuzzy_loop self a ts w = (r, w')
   \<Longrightarrow> \<exists>k ws. length ws = Suc k \<and> ws ! 0 = w
          \<and> (\<forall>i<k. search self a (ts ! i) (ws ! i) = (Inl LyricsNotFoundError, ws ! Suc i))
          \<and> (if r = Inl LyricsNotFoundError then k = length ts \<and> w' = ws ! k
              else k < length ts \<and> search self a (ts ! k) (ws ! k) = (r, w'))"
proof (induction ts arbitrary: w)
  case Nil
  then have "r = Inl LyricsNotFoundError" "w' = w" by simp_all
  then show ?case by (intro exI[of _ 0] exI[of _ "[w]"]) simp
next
  case (Cons t ts)
  obtain r1 w1 where step: "search self a t w = (r1, w1)" by (cases "search self a t w")
  show ?case
  proof (cases "r1 = Inl LyricsNotFoundError")
    case True
    with Cons.prems step have "fuzzy_loop self a ts w1 = (r, w')" by simp
    from Cons.IH[OF this] obtain k ws where
      len: "length ws = Suc k" and start: "ws ! 0 = w1" and
      before: "\<forall>i<k. search self a (ts ! i) (ws ! i) = (Inl LyricsNotFoundError, ws ! Suc i)" and
      final: "if r = Inl LyricsNotFoundError then k = length ts \<and> w' = ws ! k
              else k < length ts \<and> search self a (ts ! k) (ws ! k) = (r, w')"
      by blast
    have "\<forall>i<Suc k. search self a ((t # ts) ! i) ((w # ws) ! i)
                      = (Inl LyricsNotFoundError, (w # ws) ! Suc i)"
    proof (intro allI impI)
      fix i assume "i < Suc k"
      then show "search self a ((t # ts) ! i) ((w # ws) ! i)
                 = (Inl LyricsNotFoundError, (w # ws) ! Suc i)"
        using step True start before by (cases i) simp_all
    qed
    moreover have "if r = Inl LyricsNotFoundError
                   then Suc k = length (t # ts) \<and> w' = (w # ws) ! Suc k
                   else Suc k < length (t # ts)
                        \<and> search self a ((t # ts) ! Suc k) ((w # ws) ! Suc k) = (r, w')"
      using final by (simp split: if_splits)
    moreover have "length (w # ws) = Suc (Suc k)" "(w # ws) ! 0 = w" using len by simp_all
    ultimately show ?thesis by blast
  next
    case False
    with Cons.prems step have res: "r = r1" "w' = w1" by (auto split: sum.splits)
    with False step show ?thesis
      by (intro exI[of _ 0] exI[of _ "[w]"]) simp
  qed
qed

lemma replace_halfwidth: "str_replace 65281 33 (str_replace 65311 63 t) = halfwidth t"
  by (simp add: str_replace_def halfwidth_def)

lemma replace_fullwidth: "str_replace 33 65281 (str_replace 63 65311 t) = fullwidth t"
  by (simp add: str_replace_def fullwidth_def)

text \<open>
  C4. The variant list is built from the original title only: the title itself, then
  its half-width variant if it contains a full-width question or exclamation mark, then
  its full-width variant if it contains a half-width one; a title with both widths has
  exactly these three variants. The two examples of the specification are the last two
  equations on lists. \<open>search\<close> is then run on the variants in order, with the same
  searcher and artist, each from the state the previous run left: the variants before
  position \<open>k\<close> raise \<open>LyricsNotFoundError\<close>; either \<open>k\<close> is the number of variants
  and the result is \<open>LyricsNotFoundError\<close>, or the result and final state are those of
  the run on variant \<open>k\<close>.
\<close>

theorem fuzzy_title_search_variants:
  assumes "fuzzy_title_search self a t w = (r, w')"
  shows "fuzzy_titles t =
           t # (if 65311 \<in> set t \<or> 65281 \<in> set t then [halfwidth t] else [])
             @ (if 63 \<in> set t \<or> 33 \<in> set t then [fullwidth t] else [])
         \<and> ((65311 \<in> set t \<or> 65281 \<in> set t) \<and> (63 \<in> set t \<or> 33 \<in> set t)
              \<longrightarrow> fuzzy_titles t = [t, halfwidth t, fullwidth t])
         \<and> fuzzy_titles (u ''Hello'' @ [65311]) = [u ''Hello'' @ [65311], u ''Hello?'']
         \<and> fuzzy_titles (u ''Hi!'') = [u ''Hi!'', u ''Hi'' @ [65281]]
         \<and> (\<exists>k ws. length ws = Suc k \<and> ws ! 0 = w
               \<and> (\<forall>i<k. search self a (fuzzy_titles t ! i) (ws ! i)
                            = (Inl LyricsNotFoundError, ws ! Suc i))
               \<and> (if r = Inl LyricsNotFoundError
                   then k = length (fuzzy_titles t) \<and> w' = ws ! k
                   else k < length (fuzzy_titles t)
                        \<and> search self a (fuzzy_titles t ! k) (ws ! k) = (r, w')))"
proof -
  have variants: "fuzzy_titles t =
           t # (if 65311 \<in> set t \<or> 65281 \<in> set t then [halfwidth t] else [])
             @ (if 63 \<in> set t \<or> 33 \<in> set t then [fullwidth t] else [])"
    by (simp add: fuzzy_titles_def replace_halfwidth replace_fullwidth)
  then have both: "(65311 \<in> set t \<or> 65281 \<in> set t) \<and> (63 \<in> set t \<or> 33 \<in> set t)
              \<longrightarrow> fuzzy_titles t = [t, halfwidth t, fullwidth t]"
    by simp
  have ex1: "fuzzy_titles (u ''Hello'' @ [65311]) = [u ''Hello'' @ [65311], u ''Hello?'']"
    by (simp add: fuzzy_titles_def str_replace_def u_def)
  have ex2: "fuzzy_titles (u ''Hi!'') = [u ''Hi!'', u ''Hi'' @ [65281]]"
    by (simp add: fuzzy_titles_def str_replace_def u_def)
  from assms have "fuzzy_loop self a (fuzzy_titles t) w = (r, w')"
    by (simp add: fuzzy_title_search_def)
  from fuzzy_loop_trace[OF this] variants both ex1 ex2 show ?thesis by blast
qed

theorem fuzzy_title_search_variants_witness:
  "fuzzy_title_search
      \<lparr>searcher_classes =
         [\<lambda>a t s w. if t = u ''Hello?'' then (Inr (u ''la''), Suc w)
                     else (Inl LyricsNotFoundError, Suc w)],
       multi_strict = False\<rparr> (u ''A'') (u ''Hello'' @ [65311]) (0::nat)
    = (Inr (u ''la''), 2)
   \<and> fuzzy_titles (u ''Hello'' @ [65311]) = [u ''Hello'' @ [65311], halfwidth (u ''Hello'' @ [65311])]"
proof -
  let ?self = "\<lparr>searcher_classes =
         [\<lambda>a t s w. if t = u ''Hello?'' then (Inr (u ''la''), Suc w)
                     else (Inl LyricsNotFoundError, Suc w)],
       multi_strict = False\<rparr> :: nat MutipleLyricsSearcher"
  have run: "fuzzy_title_search ?self (u ''A'') (u ''Hello'' @ [65311]) 0 = (Inr (u ''la''), 2)"
    by (simp add: fuzzy_title_search_def fuzzy_titles_def str_replace_def search_def u_def)
  have mem: "65311 \<in> set (u ''Hello'' @ [65311])" "63 \<notin> set (u ''Hello'' @ [65311])"
     "33 \<notin> set (u ''Hello'' @ [65311])"
    by (simp_all add: u_def)
  from fuzzy_title_search_variants[OF run] mem run show ?thesis by simp
qed

section \<open>Fetching the lyrics\<close>

text \<open>
  C7. For every searcher and query: when the search page is served and the row
  selector finds no row on it, \<open>get_lyrics\<close> raises \<open>LyricsNotFoundError\<close>, the
  request for the search page being the only one made.
\<close>

theorem zero_rows_not_found:
  assumes "web w (requested w) (search_url self) = Inr soup"
    and "tag_select soup (search_result_css_selector self) = []"
  shows "get_lyrics lower self w
         = (Inl LyricsNotFoundError, w\<lparr>requested := requested w @ [search_url self]\<rparr>)"
  using assms
  by (simp add: get_lyrics_def get_lyrics_url_def requests_get_def find_lyrics_link_def)

theorem zero_rows_not_found_witness:
  "get_lyrics ascii_lower (JLyricSearcher (u ''A'') (u ''T'') False)
     (example_world (JLyricSearcher (u ''A'') (u ''T'') False) [] [] [])
   = (Inl LyricsNotFoundError,
      (example_world (JLyricSearcher (u ''A'') (u ''T'') False) [] [] [])
      \<lparr>requested := [u ''http://search.j-lyric.net/index.php?kt=T&ct=2&ka=A&ca=2'']\<rparr>)"
proof -
  let ?self = "JLyricSearcher (u ''A'') (u ''T'') False"
  let ?w = "example_world ?self [] [] []"
  have page: "web ?w (requested ?w) (search_url ?self) = Inr (page (search_result_css_selector ?self) [])"
    by (simp add: example_world_def example_web_def)
  have rows: "tag_select (page (search_result_css_selector ?self) []) (search_result_css_selector ?self) = []"
    by (simp add: page_def)
  have url: "requested ?w @ [search_url ?self]
             = [u ''http://search.j-lyric.net/index.php?kt=T&ct=2&ka=A&ca=2'']"
    by (simp add: example_world_def JLyricSearcher_def u_def)
  from zero_rows_not_found[OF page rows, of ascii_lower] url show ?thesis by simp
qed

text \<open>
  C8. A call of \<open>get_lyrics\<close> that returns lyrics has made exactly two requests, the
  search URL and then the URL that candidate selection returned. When the search page is
  served and candidate selection raises \<open>LyricsNotFoundError\<close> on its rows, the call
  raises it too and the search URL is the only request made.
\<close>

theorem fetch_count:
  "(\<forall>lyrics w'. get_lyrics lower self w = (Inr lyrics, w')
       \<longrightarrow> (\<exists>url. get_lyrics_url lower self w
                       = (Inr url, w\<lparr>requested := requested w @ [search_url self]\<rparr>)
                 \<and> w' = w\<lparr>requested := requested w @ [search_url self, url]\<rparr>))
   \<and> (\<forall>soup. web w (requested w) (search_url self) = Inr soup
          \<and> find_lyrics_link lower self (tag_select soup (search_result_css_selector self))
            = Inl LyricsNotFoundError
       \<longrightarrow> get_lyrics lower self w
           = (Inl LyricsNotFoundError, w\<lparr>requested := requested w @ [search_url self]\<rparr>))"
  by (auto simp: get_lyrics_def get_lyrics_url_def requests_get_def
           split: sum.splits prod.splits)

theorem fetch_count_witness:
  "get_lyrics ascii_lower (UtanetSearcher (u ''A'') (u ''T'') True)
     (example_world (UtanetSearcher (u ''A'') (u ''T'') True)
        [result_row (UtanetSearcher (u ''A'') (u ''T'') True)
           [element (u ''A'') None] [element (u ''T'') (Some (u ''/song/1/''))]]
        (u ''https://www.uta-net.com/song/1/'')
        [Tag [] None (u ''<div id=k>la<br>la</div>'') (\<lambda>sel. [])])
   = (Inr (u ''la'' @ [10] @ u ''la''),
      (example_world (UtanetSearcher (u ''A'') (u ''T'') True)
        [result_row (UtanetSearcher (u ''A'') (u ''T'') True)
           [element (u ''A'') None] [element (u ''T'') (Some (u ''/song/1/''))]]
        (u ''https://www.uta-net.com/song/1/'')
        [Tag [] None (u ''<div id=k>la<br>la</div>'') (\<lambda>sel. [])])
      \<lparr>requested := [search_url (UtanetSearcher (u ''A'') (u ''T'') True),
                     u ''https://www.uta-net.com/song/1/'']\<rparr>)
   \<and> (\<exists>url. get_lyrics_url ascii_lower (UtanetSearcher (u ''A'') (u ''T'') True)
     (example_world (UtanetSearcher (u ''A'') (u ''T'') True)
        [result_row (UtanetSearcher (u ''A'') (u ''T'') True)
           [element (u ''A'') None] [element (u ''T'') (Some (u ''/song/1/''))]]
        (u ''https://www.uta-net.com/song/1/'')
        [Tag [] None (u ''<div id=k>la<br>la</div>'') (\<lambda>sel. [])])
      = (Inr url,
      (example_world (UtanetSearcher (u ''A'') (u ''T'') True)
        [result_row (UtanetSearcher (u ''A'') (u ''T'') True)
           [element (u ''A'') None] [element (u ''T'') (Some (u ''/song/1/''))]]
        (u ''https://www.uta-net.com/song/1/'')
        [Tag [] None (u ''<div id=k>la<br>la</div>'') (\<lambda>sel. [])])
      \<lparr>requested := [search_url (UtanetSearcher (u ''A'') (u ''T'') True)]\<rparr>))
   \<and> get_lyrics ascii_lower (UtanetSearcher (u ''A'') (u ''T'') True)
       (example_world (UtanetSearcher (u ''A'') (u ''T'') True)
          [result_row (UtanetSearcher (u ''A'') (u ''T'') True)
             [element (u ''B'') None] [element (u ''T'') (Some (u ''/song/1/''))],
           result_row (UtanetSearcher (u ''A'') (u ''T'') True)
             [element (u ''C'') None] [element (u ''T'') (Some (u ''/song/2/''))]]
          (u ''https://www.uta-net.com/song/1/'') [])
     = (Inl LyricsNotFoundError,
        (example_world (UtanetSearcher (u ''A'') (u ''T'') True)
          [result_row (UtanetSearcher (u ''A'') (u ''T'') True)
             [element (u ''B'') None] [element (u ''T'') (Some (u ''/song/1/''))],
           result_row (UtanetSearcher (u ''A'') (u ''T'') True)
             [element (u ''C'') None] [element (u ''T'') (Some (u ''/song/2/''))]]
          (u ''https://www.uta-net.com/song/1/'') [])
        \<lparr>requested := [search_url (UtanetSearcher (u ''A'') (u ''T'') True)]\<rparr>)"
proof -
  let ?self = "UtanetSearcher (u ''A'') (u ''T'') True"
  let ?w1 = "example_world ?self
        [result_row ?self [element (u ''A'') None] [element (u ''T'') (Some (u ''/song/1/''))]]
        (u ''https://www.uta-net.com/song/1/'')
        [Tag [] None (u ''<div id=k>la<br>la</div>'') (\<lambda>sel. [])]"
  let ?rows2 = "[result_row ?self [element (u ''B'') None] [element (u ''T'') (Some (u ''/song/1/''))],
           result_row ?self [element (u ''C'') None] [element (u ''T'') (Some (u ''/song/2/''))]]"
  let ?w2 = "example_world ?self ?rows2 (u ''https://www.uta-net.com/song/1/'') []"
  have run1: "get_lyrics ascii_lower ?self ?w1
              = (Inr (u ''la'' @ [10] @ u ''la''),
                 ?w1\<lparr>requested := [search_url ?self, u ''https://www.uta-net.com/song/1/'']\<rparr>)"
    by (simp add: run_defs UtanetSearcher_def u_def)
  have page2: "web ?w2 (requested ?w2) (search_url ?self)
               = Inr (page (search_result_css_selector ?self) ?rows2)"
    by (simp add: example_world_def example_web_def)
  have none2: "find_lyrics_link ascii_lower ?self
                 (tag_select (page (search_result_css_selector ?self) ?rows2)
                    (search_result_css_selector ?self))
               = Inl LyricsNotFoundError"
    by (simp add: run_defs UtanetSearcher_def u_def)
  have start2: "requested ?w2 = []"
    by (simp add: example_world_def)
  have start1: "requested ?w1 = []"
    by (simp add: example_world_def)
  from fetch_count[of ascii_lower ?self ?w1] run1
  have "\<exists>url. get_lyrics_url ascii_lower ?self ?w1
                = (Inr url, ?w1\<lparr>requested := requested ?w1 @ [search_url ?self]\<rparr>)"
    by blast
  with start1 have first: "\<exists>url. get_lyrics_url ascii_lower ?self ?w1
                = (Inr url, ?w1\<lparr>requested := [search_url ?self]\<rparr>)"
    by simp
  from fetch_count[of ascii_lower ?self ?w2] page2 none2
  have "get_lyrics ascii_lower ?self ?w2
        = (Inl LyricsNotFoundError, ?w2\<lparr>requested := requested ?w2 @ [search_url ?self]\<rparr>)"
    by blast
  with start2 run1 first show ?thesis by simp
qed

text \<open>
  C5. The specification asks for \<open>LyricsNotFoundError\<close> when no element of the lyrics
  page matches the lyrics selector. The program passes the missing element to \<open>str\<close>
  and post-processes the outcome: on a search page with one matching row and a lyrics
  page without a lyrics container, \<open>get_lyrics\<close> returns the text \<open>None\<close> as the
  lyrics, after both requests.
\<close>

theorem missing_container_returns_None:
  "get_lyrics ascii_lower (UtanetSearcher (u ''A'') (u ''T'') True)
     (example_world (UtanetSearcher (u ''A'') (u ''T'') True)
        [result_row (UtanetSearcher (u ''A'') (u ''T'') True)
           [element (u ''A'') None] [element (u ''T'') (Some (u ''/song/1/''))]]
        (u ''https://www.uta-net.com/song/1/'') [])
   = (Inr (u ''None''),
      (example_world (UtanetSearcher (u ''A'') (u ''T'') True)
        [result_row (UtanetSearcher (u ''A'') (u ''T'') True)
           [element (u ''A'') None] [element (u ''T'') (Some (u ''/song/1/''))]]
        (u ''https://www.uta-net.com/song/1/'') [])
      \<lparr>requested := [u ''https://www.uta-net.com/search/?Aselect=2&Keyword=T&Bselect=4&x=0&y=0'',
                     u ''https://www.uta-net.com/song/1/'']\<rparr>)"
  by (simp add: run_defs UtanetSearcher_def u_def)

section \<open>The search URLs\<close>

lemma url_encode_unreserved: "list_all unreserved v \<Longrightarrow> url_encode v = v"
  by (induction v) (simp_all add: url_encode_def)

text \<open>
  C6, as stated: the artist and title are URL-encoded before they are put into the
  search-URL template. It fails for the title \<open>a&b\<close>, whose encoding is \<open>a%26b\<close>: the
  search URL of the Uta-Net searcher holds the title as it is.
\<close>

theorem search_url_not_encoded:
  "url_encode (u ''a&b'') = u ''a%26b''
   \<and> search_url (UtanetSearcher (u ''x'') (u ''a&b'') True)
       = u ''https://www.uta-net.com/search/?Aselect=2&Keyword=a&b&Bselect=4&x=0&y=0''
   \<and> search_url (UtanetSearcher (u ''x'') (u ''a&b'') True)
       \<noteq> u ''https://www.uta-net.com/search/?Aselect=2&Keyword='' @ url_encode (u ''a&b'')
           @ u ''&Bselect=4&x=0&y=0''"
  by (simp add: UtanetSearcher_def url_encode_def unreserved_def utf8_def percent_def
        hex_digit_def u_def)

text \<open>
  C6, amended. For every searcher the search URL is the template of its class with the
  title, and for the J-Lyric searcher the artist, inserted as they are; no encoding is
  applied. The URL is the one with URL-encoded values whenever the values consist of
  unreserved characters only.
\<close>

theorem search_url_verbatim:
  "search_url (UtanetSearcher a t s)
     = u ''https://www.uta-net.com/search/?Aselect=2&Keyword='' @ t @ u ''&Bselect=4&x=0&y=0''
   \<and> search_url (JLyricSearcher a t s)
     = u ''http://search.j-lyric.net/index.php?kt='' @ t @ u ''&ct=2&ka='' @ a @ u ''&ca=2''
   \<and> search_url (JLyricTitleSearcher a t s)
     = u ''http://search.j-lyric.net/index.php?kt='' @ t @ u ''&ct=2&ka=&ca=2''
   \<and> search_url (PetitLyricsSearcher a t s)
     = u ''https://petitlyrics.com/search_lyrics?title='' @ t
   \<and> (list_all unreserved t \<and> list_all unreserved a
        \<longrightarrow> search_url (UtanetSearcher a t s)
              = u ''https://www.uta-net.com/search/?Aselect=2&Keyword='' @ url_encode t
                @ u ''&Bselect=4&x=0&y=0''
          \<and> search_url (JLyricSearcher a t s)
              = u ''http://search.j-lyric.net/index.php?kt='' @ url_encode t @ u ''&ct=2&ka=''
                @ url_encode a @ u ''&ca=2''
          \<and> search_url (JLyricTitleSearcher a t s)
              = u ''http://search.j-lyric.net/index.php?kt='' @ url_encode t @ u ''&ct=2&ka=&ca=2''
          \<and> search_url (PetitLyricsSearcher a t s)
              = u ''https://petitlyrics.com/search_lyrics?title='' @ url_encode t)"
  by (simp add: UtanetSearcher_def JLyricSearcher_def JLyricTitleSearcher_def
        PetitLyricsSearcher_def url_encode_unreserved)

theorem search_url_verbatim_witness:
  "list_all unreserved (u ''Hello'') \<and> list_all unreserved (u ''flumpool'')
   \<and> search_url (JLyricSearcher (u ''flumpool'') (u ''Hello'') False)
       = u ''http://search.j-lyric.net/index.php?kt=Hello&ct=2&ka=flumpool&ca=2''
   \<and> url_encode (u ''Hello'') = u ''Hello''"
proof -
  have ok: "list_all unreserved (u ''Hello'')" "list_all unreserved (u ''flumpool'')"
    by (simp_all add: unreserved_def u_def)
  have enc: "url_encode (u ''Hello'') = u ''Hello''"
    by (simp add: url_encode_def unreserved_def u_def)
  have cat: "u ''http://search.j-lyric.net/index.php?kt='' @ u ''Hello'' @ u ''&ct=2&ka=''
                @ u ''flumpool'' @ u ''&ca=2''
             = u ''http://search.j-lyric.net/index.php?kt=Hello&ct=2&ka=flumpool&ca=2''"
    by (simp add: u_def)
  from search_url_verbatim[of "u ''flumpool''" "u ''Hello''" False] ok enc cat
  show ?thesis by simp
qed

section \<open>Properties of the batch driver\<close>

lemma process_line_never_not_found:
  "process_line lower line st = (Some e, st') \<Longrightarrow> e \<noteq> LyricsNotFoundError"
  by (auto simp: process_line_def Let_def split: list.splits prod.splits sum.splits if_splits)

lemma main_loop_never_not_found:
  "main_loop lower lines st = (Some e, st') \<Longrightarrow> e \<noteq> LyricsNotFoundError"
proof (induction lines arbitrary: st)
  case Nil
  then show ?case by simp
next
  case (Cons line rest)
  obtain x st1 where step: "process_line lower line st = (x, st1)"
    by (cases "process_line lower line st")
  show ?case
  proof (cases x)
    case None
    with Cons.prems step have "main_loop lower rest st1 = (Some e, st')" by simp
    then show ?thesis by (rule Cons.IH)
  next
    case (Some e1)
    with Cons.prems step have "e1 = e" by simp
    with Some step show ?thesis using process_line_never_not_found by blast
  qed
qed

text \<open>
  C9. For an input line that holds a title and an artist: when the fuzzy search
  returns lyrics, the iteration ends without an exception in the state where the lyrics
  are the content of the file \<open>lyrics/\<close> followed by \<open>artist-title\<close> with every
  \<open>/\<close> of that name replaced by \<open>_\<close>, and the driver goes on with the remaining
  lines from that state; when it raises \<open>LyricsNotFoundError\<close>, the files are as
  before and the driver goes on with the remaining lines. Any other exception of the
  search ends the run; a run over no lines changes nothing; and no run is ended by
  \<open>LyricsNotFoundError\<close>.
\<close>

theorem batch_driver_writes_or_continues:
  assumes "split_on 9 (rstrip_newline line) = [t, a]"
  shows "(\<forall>lyrics w'.
            fuzzy_title_search \<lparr>searcher_classes = searcher_list lower, multi_strict = False\<rparr>
              a t (net st) = (Inr lyrics, w')
            \<longrightarrow> process_line lower line st
                = (None,
                   st\<lparr>files := (files st)
                           (u ''lyrics/'' @ map (\<lambda>c. if c = 47 then 95 else c) (a @ u ''-'' @ t)
                              \<mapsto> lyrics),
                       stdout := stdout st @ [u ''Lyrics found: '' @ t @ u ''_'' @ a @ u ''.txt''],
                       net := w'\<rparr>)
              \<and> main_loop lower (line # rest) st
                = main_loop lower rest
                    (st\<lparr>files := (files st)
                            (u ''lyrics/'' @ map (\<lambda>c. if c = 47 then 95 else c) (a @ u ''-'' @ t)
                               \<mapsto> lyrics),
                        stdout := stdout st @ [u ''Lyrics found: '' @ t @ u ''_'' @ a @ u ''.txt''],
                        net := w'\<rparr>)
              \<and> main_loop lower [line] st
                = (None,
                   st\<lparr>files := (files st)
                           (u ''lyrics/'' @ map (\<lambda>c. if c = 47 then 95 else c) (a @ u ''-'' @ t)
                              \<mapsto> lyrics),
                       stdout := stdout st @ [u ''Lyrics found: '' @ t @ u ''_'' @ a @ u ''.txt''],
                       net := w'\<rparr>))
         \<and> (\<forall>w'.
            fuzzy_title_search \<lparr>searcher_classes = searcher_list lower, multi_strict = False\<rparr>
              a t (net st) = (Inl LyricsNotFoundError, w')
            \<longrightarrow> process_line lower line st
                = (None,
                   st\<lparr>stdout := stdout st @ [u ''Lyrics not found: '' @ t @ u '' - '' @ a],
                       net := w'\<rparr>)
              \<and> main_loop lower (line # rest) st
                = main_loop lower rest
                    (st\<lparr>stdout := stdout st @ [u ''Lyrics not found: '' @ t @ u '' - '' @ a],
                        net := w'\<rparr>)
              \<and> main_loop lower [line] st
                = (None,
                   st\<lparr>stdout := stdout st @ [u ''Lyrics not found: '' @ t @ u '' - '' @ a],
                       net := w'\<rparr>))
         \<and> (\<forall>e w'.
            fuzzy_title_search \<lparr>searcher_classes = searcher_list lower, multi_strict = False\<rparr>
              a t (net st) = (Inl e, w') \<and> e \<noteq> LyricsNotFoundError
            \<longrightarrow> main_loop lower (line # rest) st = (Some e, st\<lparr>net := w'\<rparr>))
         \<and> (\<forall>st0. main_loop lower [] st0 = (None, st0))
         \<and> (\<forall>lines st0 e st'. main_loop lower lines st0 = (Some e, st')
                     \<longrightarrow> e \<noteq> LyricsNotFoundError)"
  using assms main_loop_never_not_found[of lower]
  by (auto simp: process_line_def lyrics_path_def str_replace_def Let_def)

theorem batch_driver_writes_or_continues_witness:
  "main_loop ascii_lower
     [u ''X'' @ [9] @ u ''Y'' @ [10], [34174, 9] @ u ''flumpool'' @ [10]]
     \<lparr>files = Map.empty, stdout = [], net = flumpool_world\<rparr>
   = (None,
      \<lparr>files = [u ''lyrics/flumpool-'' @ [34174] \<mapsto> u ''la'' @ [10] @ u ''la''],
       stdout = [u ''Lyrics not found: X - Y'', u ''Lyrics found: '' @ [34174] @ u ''_flumpool.txt''],
       net = flumpool_world\<lparr>requested :=
        [u ''http://search.j-lyric.net/index.php?kt=X&ct=2&ka=Y&ca=2'',
         u ''https://www.uta-net.com/search/?Aselect=2&Keyword=X&Bselect=4&x=0&y=0'',
         u ''https://petitlyrics.com/search_lyrics?title=X'',
         u ''http://search.j-lyric.net/index.php?kt=X&ct=2&ka=&ca=2'',
         u ''http://search.j-lyric.net/index.php?kt='' @ [34174] @ u ''&ct=2&ka=flumpool&ca=2'',
         u ''https://www.uta-net.com/search/?Aselect=2&Keyword='' @ [34174] @ u ''&Bselect=4&x=0&y=0'',
         u ''https://petitlyrics.com/search_lyrics?title='' @ [34174],
         u ''https://petitlyrics.com/lyrics/12345'']\<rparr>\<rparr>)"
proof -
  let ?line1 = "u ''X'' @ [9] @ u ''Y'' @ [10]"
  let ?line2 = "[34174, 9] @ u ''flumpool'' @ [10]"
  let ?st0 = "\<lparr>files = Map.empty, stdout = [], net = flumpool_world\<rparr>"
  let ?w1 = "flumpool_world\<lparr>requested :=
        [u ''http://search.j-lyric.net/index.php?kt=X&ct=2&ka=Y&ca=2'',
         u ''https://www.uta-net.com/search/?Aselect=2&Keyword=X&Bselect=4&x=0&y=0'',
         u ''https://petitlyrics.com/search_lyrics?title=X'',
         u ''http://search.j-lyric.net/index.php?kt=X&ct=2&ka=&ca=2'']\<rparr>"
  let ?st1 = "?st0\<lparr>stdout := stdout ?st0 @ [u ''Lyrics not found: '' @ u ''X'' @ u '' - '' @ u ''Y''],
                   net := ?w1\<rparr>"
  have split1: "split_on 9 (rstrip_newline ?line1) = [u ''X'', u ''Y'']"
    by (simp add: rstrip_newline_def u_def)
  have split2: "split_on 9 (rstrip_newline ?line2) = [[34174], u ''flumpool'']"
    by (simp add: rstrip_newline_def u_def)
  have run1: "fuzzy_title_search
                \<lparr>searcher_classes = searcher_list ascii_lower, multi_strict = False\<rparr>
                (u ''Y'') (u ''X'') (net ?st0) = (Inl LyricsNotFoundError, ?w1)"
    using fz1 by simp
  from batch_driver_writes_or_continues[OF split1, of ascii_lower ?st0 "[?line2]"] run1
  have step1: "main_loop ascii_lower [?line1, ?line2] ?st0 = main_loop ascii_lower [?line2] ?st1"
    by blast
  have run2: "fuzzy_title_search
                \<lparr>searcher_classes = searcher_list ascii_lower, multi_strict = False\<rparr>
                (u ''flumpool'') [34174] (net ?st1)
              = (Inr (u ''la'' @ [10] @ u ''la''),
      flumpool_world\<lparr>requested :=
        [u ''http://search.j-lyric.net/index.php?kt=X&ct=2&ka=Y&ca=2'',
         u ''https://www.uta-net.com/search/?Aselect=2&Keyword=X&Bselect=4&x=0&y=0'',
         u ''https://petitlyrics.com/search_lyrics?title=X'',
         u ''http://search.j-lyric.net/index.php?kt=X&ct=2&ka=&ca=2'',
         u ''http://search.j-lyric.net/index.php?kt='' @ [34174] @ u ''&ct=2&ka=flumpool&ca=2'',
         u ''https://www.uta-net.com/search/?Aselect=2&Keyword='' @ [34174] @ u ''&Bselect=4&x=0&y=0'',
         u ''https://petitlyrics.com/search_lyrics?title='' @ [34174],
         u ''https://petitlyrics.com/lyrics/12345'']\<rparr>)"
    using fz2 by simp
  from batch_driver_writes_or_continues[OF split2, of ascii_lower ?st1 "[]"] run2
  have step2: "main_loop ascii_lower [?line2] ?st1
     = main_loop ascii_lower []
         (?st1\<lparr>files := (files ?st1)
                  (u ''lyrics/'' @ map (\<lambda>c. if c = 47 then 95 else c) (u ''flumpool'' @ u ''-'' @ [34174])
                     \<mapsto> u ''la'' @ [10] @ u ''la''),
                stdout := stdout ?st1 @ [u ''Lyrics found: '' @ [34174] @ u ''_'' @ u ''flumpool'' @ u ''.txt''],
                net := flumpool_world\<lparr>requested :=
        [u ''http://search.j-lyric.net/index.php?kt=X&ct=2&ka=Y&ca=2'',
         u ''https://www.uta-net.com/search/?Aselect=2&Keyword=X&Bselect=4&x=0&y=0'',
         u ''https://petitlyrics.com/search_lyrics?title=X'',
         u ''http://search.j-lyric.net/index.php?kt=X&ct=2&ka=&ca=2'',
         u ''http://search.j-lyric.net/index.php?kt='' @ [34174] @ u ''&ct=2&ka=flumpool&ca=2'',
         u ''https://www.uta-net.com/search/?Aselect=2&Keyword='' @ [34174] @ u ''&Bselect=4&x=0&y=0'',
         u ''https://petitlyrics.com/search_lyrics?title='' @ [34174],
         u ''https://petitlyrics.com/lyrics/12345'']\<rparr>\<rparr>)"
    (is "_ = main_loop _ _ ?st2")
    by blast
  note step1
  also note step2
  also have "main_loop ascii_lower [] ?st2 = (None, ?st2)"
    by simp
  also have "(None :: exn option, ?st2) =
     (None,
      \<lparr>files = [u ''lyrics/flumpool-'' @ [34174] \<mapsto> u ''la'' @ [10] @ u ''la''],
       stdout = [u ''Lyrics not found: X - Y'', u ''Lyrics found: '' @ [34174] @ u ''_flumpool.txt''],
       net = flumpool_world\<lparr>requested :=
        [u ''http://search.j-lyric.net/index.php?kt=X&ct=2&ka=Y&ca=2'',
         u ''https://www.uta-net.com/search/?Aselect=2&Keyword=X&Bselect=4&x=0&y=0'',
         u ''https://petitlyrics.com/search_lyrics?title=X'',
         u ''http://search.j-lyric.net/index.php?kt=X&ct=2&ka=&ca=2'',
         u ''http://search.j-lyric.net/index.php?kt='' @ [34174] @ u ''&ct=2&ka=flumpool&ca=2'',
         u ''https://www.uta-net.com/search/?Aselect=2&Keyword='' @ [34174] @ u ''&Bselect=4&x=0&y=0'',
         u ''https://petitlyrics.com/search_lyrics?title='' @ [34174],
         u ''https://petitlyrics.com/lyrics/12345'']\<rparr>\<rparr>)"
    by (simp add: u_def)
  finally show ?thesis .
qed

section \<open>Candidate selection among several candidates\<close>

text \<open>
  C2. The specification selects, in a sequence of more than one candidate, the first
  candidate whose artist text equals the query artist or, strictness being disabled,
  begins with the same character up to case. With strictness disabled the program takes
  the first character of both artist strings without a test for the empty string: of
  the two rows below the first does not match and the second has exactly the query
  artist, and the selection ends with \<open>IndexError\<close>. With strictness enabled the same
  rows give the URL of the second. The batch driver, which always disables strictness,
  is ended by that exception when the first searcher is served these rows.
\<close>

theorem nonstrict_selection_IndexError:
  "\<not> artist_matches ascii_lower (JLyricSearcher (u ''A'') (u ''T'') False)
       (result_row (JLyricSearcher (u ''A'') (u ''T'') False)
          [element [] None] [element [] (Some (u ''http://j-lyric.net/artist/a1/l1.html''))])
   \<and> artist_matches ascii_lower (JLyricSearcher (u ''A'') (u ''T'') False)
       (result_row (JLyricSearcher (u ''A'') (u ''T'') False)
          [element (u ''A'') None] [element [] (Some (u ''http://j-lyric.net/artist/a2/l2.html''))])
   \<and> find_lyrics_link ascii_lower (JLyricSearcher (u ''A'') (u ''T'') False)
       [result_row (JLyricSearcher (u ''A'') (u ''T'') False)
          [element [] None] [element [] (Some (u ''http://j-lyric.net/artist/a1/l1.html''))],
        result_row (JLyricSearcher (u ''A'') (u ''T'') False)
          [element (u ''A'') None] [element [] (Some (u ''http://j-lyric.net/artist/a2/l2.html''))]]
     = Inl IndexError
   \<and> find_lyrics_link ascii_lower (JLyricSearcher (u ''A'') (u ''T'') True)
       [result_row (JLyricSearcher (u ''A'') (u ''T'') True)
          [element [] None] [element [] (Some (u ''http://j-lyric.net/artist/a1/l1.html''))],
        result_row (JLyricSearcher (u ''A'') (u ''T'') True)
          [element (u ''A'') None] [element [] (Some (u ''http://j-lyric.net/artist/a2/l2.html''))]]
     = Inr (u ''http://j-lyric.net/artist/a2/l2.html'')
   \<and> fst (main_loop ascii_lower [u ''T'' @ [9] @ u ''A'' @ [10]]
          \<lparr>files = Map.empty, stdout = [],
           net = example_world (JLyricSearcher (u ''A'') (u ''T'') False)
             [result_row (JLyricSearcher (u ''A'') (u ''T'') False)
                [element [] None] [element [] (Some (u ''http://j-lyric.net/artist/a1/l1.html''))],
              result_row (JLyricSearcher (u ''A'') (u ''T'') False)
                [element (u ''A'') None] [element [] (Some (u ''http://j-lyric.net/artist/a2/l2.html''))]]
             (u ''http://j-lyric.net/artist/a2/l2.html'')
             [Tag [] None (u ''<p id=Lyric>la</p>'') (\<lambda>sel. [])]\<rparr>)
     = Some IndexError"
  by (simp add: run_defs2 process_line_def rstrip_newline_def artist_matches_def
        first_char_ci_eq_def u_def)

section \<open>Preconditions of candidate selection\<close>

lemma find_loop_total:
  "selection_precondition self cs
   \<Longrightarrow> find_lyrics_link_loop lower self n cs = Inl LyricsNotFoundError
       \<or> (\<exists>url. find_lyrics_link_loop lower self n cs = Inr url)"
proof (induction cs)
  case Nil
  then show ?case by simp
next
  case (Cons c cs)
  then have rest: "selection_precondition self cs"
    and query: "artist self \<noteq> []"
    by (simp_all add: selection_precondition_def)
  show ?case
  proof (cases "select_one c (search_result_artist_css_selector self)")
    case None
    then show ?thesis using Cons.IH[OF rest] by simp
  next
    case (Some a)
    with Cons.prems have nonempty: "tag_text a \<noteq> []" and "has_url self c"
      by (simp_all add: selection_precondition_def)
    then obtain url where url: "suggested_url self c = Inr url"
      by (auto simp: has_url_def split: sum.splits)
    show ?thesis using Some url nonempty query Cons.IH[OF rest]
      by (auto simp: first_lower_eq_def split: list.splits bool.splits)
  qed
qed

lemma find_loop_passed_over:
  "list_all (passed_over lower self n) pre
   \<Longrightarrow> find_lyrics_link_loop lower self n (pre @ cs) = find_lyrics_link_loop lower self n cs"
proof (induction pre)
  case Nil
  then show ?case by simp
next
  case (Cons c pre)
  then have head: "passed_over lower self n c" and "list_all (passed_over lower self n) pre"
    by simp_all
  with Cons.IH have rest: "find_lyrics_link_loop lower self n (pre @ cs)
                           = find_lyrics_link_loop lower self n cs"
    by simp
  show ?case
  proof (cases "select_one c (search_result_artist_css_selector self)")
    case None
    then show ?thesis using rest by simp
  next
    case (Some a)
    with head obtain url where "suggested_url self c = Inr url"
      by (auto simp: passed_over_def has_url_def split: sum.splits)
    with Some head rest show ?thesis
      by (auto simp: passed_over_def)
  qed
qed

lemma find_loop_head_failures:
  assumes "select_one c (search_result_artist_css_selector self) = Some a"
  shows "select_one c (search_result_lyrics_link_css_selector self) = None
           \<Longrightarrow> find_lyrics_link_loop lower self n (c # rest) = Inl AttributeError"
    and "select_one c (search_result_lyrics_link_css_selector self) = Some l \<Longrightarrow> tag_href l = None
           \<Longrightarrow> find_lyrics_link_loop lower self n (c # rest) = Inl TypeError"
    and "has_url self c \<Longrightarrow> tag_text a = [] \<or> artist self = []
           \<Longrightarrow> n = 1 \<or> (\<not> strict self \<and> tag_text a \<noteq> artist self)
           \<Longrightarrow> find_lyrics_link_loop lower self n (c # rest) = Inl IndexError"
  using assms
  by (auto simp: suggested_url_def has_url_def first_lower_eq_def
           split: sum.splits list.splits option.splits)

lemma find_loop_failure_cause:
  "find_lyrics_link_loop lower self n cs = Inl e \<Longrightarrow> e \<noteq> LyricsNotFoundError
   \<Longrightarrow> \<exists>pre c rest a. cs = pre @ c # rest \<and> list_all (passed_over lower self n) pre
         \<and> select_one c (search_result_artist_css_selector self) = Some a
         \<and> ((select_one c (search_result_lyrics_link_css_selector self) = None
               \<and> e = AttributeError)
            \<or> ((\<exists>l. select_one c (search_result_lyrics_link_css_selector self) = Some l
                      \<and> tag_href l = None)
               \<and> e = TypeError)
            \<or> (has_url self c \<and> (tag_text a = [] \<or> artist self = [])
               \<and> (n = 1 \<or> (\<not> strict self \<and> tag_text a \<noteq> artist self))
               \<and> e = IndexError))"
proof (induction cs)
  case Nil
  then show ?case by simp
next
  case (Cons c cs)
  show ?case
  proof (cases "passed_over lower self n c")
    case True
    then have "find_lyrics_link_loop lower self n (c # cs) = find_lyrics_link_loop lower self n cs"
      using find_loop_passed_over[of lower self n "[c]" cs] by simp
    with Cons.prems have "find_lyrics_link_loop lower self n cs = Inl e" by simp
    from Cons.IH[OF this Cons.prems(2)] obtain pre c' rest a where
      "cs = pre @ c' # rest" "list_all (passed_over lower self n) pre"
      "select_one c' (search_result_artist_css_selector self) = Some a"
      "(select_one c' (search_result_lyrics_link_css_selector self) = None
               \<and> e = AttributeError)
            \<or> ((\<exists>l. select_one c' (search_result_lyrics_link_css_selector self) = Some l
                      \<and> tag_href l = None)
               \<and> e = TypeError)
            \<or> (has_url self c' \<and> (tag_text a = [] \<or> artist self = [])
               \<and> (n = 1 \<or> (\<not> strict self \<and> tag_text a \<noteq> artist self))
               \<and> e = IndexError)"
      by blast
    with True show ?thesis
      by (intro exI[of _ "c # pre"] exI[of _ c'] exI[of _ rest] exI[of _ a]) simp
  next
    case False
    then obtain a where a: "select_one c (search_result_artist_css_selector self) = Some a"
      by (auto simp: passed_over_def split: option.splits)
    have "(select_one c (search_result_lyrics_link_css_selector self) = None
               \<and> e = AttributeError)
            \<or> ((\<exists>l. select_one c (search_result_lyrics_link_css_selector self) = Some l
                      \<and> tag_href l = None)
               \<and> e = TypeError)
            \<or> (has_url self c \<and> (tag_text a = [] \<or> artist self = [])
               \<and> (n = 1 \<or> (\<not> strict self \<and> tag_text a \<noteq> artist self))
               \<and> e = IndexError)"
      using Cons.prems a False
      by (auto simp: passed_over_def suggested_url_def has_url_def first_lower_eq_def
               split: sum.splits list.splits option.splits bool.splits if_splits)
    with a show ?thesis
      by (intro exI[of _ "[]"] exI[of _ c] exI[of _ cs] exI[of _ a]) simp
  qed
qed

text \<open>
  C10, as stated: selection returns a URL or raises \<open>LyricsNotFoundError\<close> only when
  the query artist is non-empty and every candidate with an artist field has a non-empty
  artist text and a link element, and fails with another error otherwise. Neither
  direction holds: with an empty query artist, strictness enabled and two candidates the
  result is \<open>LyricsNotFoundError\<close>; with all three conditions met and a link element
  that has no \<open>href\<close> the result is \<open>TypeError\<close>.
\<close>

theorem selection_failure_modes_counterexample:
  "artist (UtanetSearcher [] (u ''T'') True) = []
   \<and> find_lyrics_link ascii_lower (UtanetSearcher [] (u ''T'') True)
       [result_row (UtanetSearcher [] (u ''T'') True)
          [element (u ''B'') None] [element [] (Some (u ''/song/1/''))],
        result_row (UtanetSearcher [] (u ''T'') True)
          [element (u ''C'') None] [element [] (Some (u ''/song/2/''))]]
     = Inl LyricsNotFoundError
   \<and> artist (UtanetSearcher (u ''A'') (u ''T'') True) \<noteq> []
   \<and> select_one (result_row (UtanetSearcher (u ''A'') (u ''T'') True)
                   [element (u ''A'') None] [element (u ''T'') None])
        (search_result_artist_css_selector (UtanetSearcher (u ''A'') (u ''T'') True))
     = Some (element (u ''A'') None)
   \<and> tag_text (element (u ''A'') None) \<noteq> []
   \<and> select_one (result_row (UtanetSearcher (u ''A'') (u ''T'') True)
                   [element (u ''A'') None] [element (u ''T'') None])
        (search_result_lyrics_link_css_selector (UtanetSearcher (u ''A'') (u ''T'') True))
     = Some (element (u ''T'') None)
   \<and> find_lyrics_link ascii_lower (UtanetSearcher (u ''A'') (u ''T'') True)
       [result_row (UtanetSearcher (u ''A'') (u ''T'') True)
          [element (u ''A'') None] [element (u ''T'') None]]
     = Inl TypeError"
  by (simp add: run_defs UtanetSearcher_def u_def)

text \<open>
  C10, amended. Selection returns a URL or raises \<open>LyricsNotFoundError\<close> whenever the
  query artist is non-empty and every candidate with an artist field has a non-empty
  artist text and a link element with an \<open>href\<close>. At every candidate with an artist
  field that the loop reaches, the candidates before it being passed over, selection
  fails instead of skipping the candidate: with \<open>AttributeError\<close> if it has no link
  element, with \<open>TypeError\<close> if its link element has no \<open>href\<close>, and with
  \<open>IndexError\<close> if it has a URL, its artist text or the query artist is empty, and a
  first-character test is made on it, that is, the sequence has one entry, or strictness
  is disabled and the two artist strings differ. Every result other than a URL and
  \<open>LyricsNotFoundError\<close> arises in one of these three ways.
\<close>

theorem selection_failure_modes:
  "(selection_precondition self cs
      \<longrightarrow> find_lyrics_link lower self cs = Inl LyricsNotFoundError
          \<or> (\<exists>url. find_lyrics_link lower self cs = Inr url))
   \<and> (\<forall>pre c rest a.
         cs = pre @ c # rest \<and> list_all (passed_over lower self (length cs)) pre
         \<and> select_one c (search_result_artist_css_selector self) = Some a
       \<longrightarrow> (select_one c (search_result_lyrics_link_css_selector self) = None
              \<longrightarrow> find_lyrics_link lower self cs = Inl AttributeError)
           \<and> ((\<exists>l. select_one c (search_result_lyrics_link_css_selector self) = Some l
                     \<and> tag_href l = None)
              \<longrightarrow> find_lyrics_link lower self cs = Inl TypeError)
           \<and> (has_url self c \<and> (tag_text a = [] \<or> artist self = [])
                \<and> (length cs = 1 \<or> (\<not> strict self \<and> tag_text a \<noteq> artist self))
              \<longrightarrow> find_lyrics_link lower self cs = Inl IndexError))
   \<and> (\<forall>e. find_lyrics_link lower self cs = Inl e \<and> e \<noteq> LyricsNotFoundError
       \<longrightarrow> (\<exists>pre c rest a.
              cs = pre @ c # rest \<and> list_all (passed_over lower self (length cs)) pre
              \<and> select_one c (search_result_artist_css_selector self) = Some a
              \<and> ((select_one c (search_result_lyrics_link_css_selector self) = None
                    \<and> e = AttributeError)
                 \<or> ((\<exists>l. select_one c (search_result_lyrics_link_css_selector self) = Some l
                           \<and> tag_href l = None)
                    \<and> e = TypeError)
                 \<or> (has_url self c \<and> (tag_text a = [] \<or> artist self = [])
                    \<and> (length cs = 1 \<or> (\<not> strict self \<and> tag_text a \<noteq> artist self))
                    \<and> e = IndexError))))"
proof (intro conjI)
  show "selection_precondition self cs
      \<longrightarrow> find_lyrics_link lower self cs = Inl LyricsNotFoundError
          \<or> (\<exists>url. find_lyrics_link lower self cs = Inr url)"
    using find_loop_total[of self cs lower "length cs"] by (simp add: find_lyrics_link_def)
next
  show "\<forall>pre c rest a.
         cs = pre @ c # rest \<and> list_all (passed_over lower self (length cs)) pre
         \<and> select_one c (search_result_artist_css_selector self) = Some a
       \<longrightarrow> (select_one c (search_result_lyrics_link_css_selector self) = None
              \<longrightarrow> find_lyrics_link lower self cs = Inl AttributeError)
           \<and> ((\<exists>l. select_one c (search_result_lyrics_link_css_selector self) = Some l
                     \<and> tag_href l = None)
              \<longrightarrow> find_lyrics_link lower self cs = Inl TypeError)
           \<and> (has_url self c \<and> (tag_text a = [] \<or> artist self = [])
                \<and> (length cs = 1 \<or> (\<not> strict self \<and> tag_text a \<noteq> artist self))
              \<longrightarrow> find_lyrics_link lower self cs = Inl IndexError)"
  proof (intro allI impI, elim conjE)
    fix pre c rest a
    assume cs: "cs = pre @ c # rest"
      and pre: "list_all (passed_over lower self (length cs)) pre"
      and a: "select_one c (search_result_artist_css_selector self) = Some a"
    have reach: "find_lyrics_link lower self cs
                 = find_lyrics_link_loop lower self (length cs) (c # rest)"
      unfolding find_lyrics_link_def
      using find_loop_passed_over[OF pre, of "c # rest"] cs by simp
    show "(select_one c (search_result_lyrics_link_css_selector self) = None
              \<longrightarrow> find_lyrics_link lower self cs = Inl AttributeError)
           \<and> ((\<exists>l. select_one c (search_result_lyrics_link_css_selector self) = Some l
                     \<and> tag_href l = None)
              \<longrightarrow> find_lyrics_link lower self cs = Inl TypeError)
           \<and> (has_url self c \<and> (tag_text a = [] \<or> artist self = [])
                \<and> (length cs = 1 \<or> (\<not> strict self \<and> tag_text a \<noteq> artist self))
              \<longrightarrow> find_lyrics_link lower self cs = Inl IndexError)"
      unfolding reach using find_loop_head_failures[OF a]
      by blast
  qed
next
  show "\<forall>e. find_lyrics_link lower self cs = Inl e \<and> e \<noteq> LyricsNotFoundError
       \<longrightarrow> (\<exists>pre c rest a.
              cs = pre @ c # rest \<and> list_all (passed_over lower self (length cs)) pre
              \<and> select_one c (search_result_artist_css_selector self) = Some a
              \<and> ((select_one c (search_result_lyrics_link_css_selector self) = None
                    \<and> e = AttributeError)
                 \<or> ((\<exists>l. select_one c (search_result_lyrics_link_css_selector self) = Some l
                           \<and> tag_href l = None)
                    \<and> e = TypeError)
                 \<or> (has_url self c \<and> (tag_text a = [] \<or> artist self = [])
                    \<and> (length cs = 1 \<or> (\<not> strict self \<and> tag_text a \<noteq> artist self))
                    \<and> e = IndexError)))"
    using find_loop_failure_cause[of lower self "length cs" cs]
    by (simp add: find_lyrics_link_def)
qed

theorem selection_failure_modes_witness:
  "selection_precondition (UtanetSearcher (u ''abc'') (u ''T'') False) [result_row (UtanetSearcher (u ''abc'') (u ''T'') False) [element (u ''Axy'') None] [element [] (Some (u ''/song/2/''))]]
   \<and> (find_lyrics_link ascii_lower (UtanetSearcher (u ''abc'') (u ''T'') False)
         [result_row (UtanetSearcher (u ''abc'') (u ''T'') False) [element (u ''Axy'') None] [element [] (Some (u ''/song/2/''))]]
       = Inl LyricsNotFoundError
       \<or> (\<exists>url. find_lyrics_link ascii_lower (UtanetSearcher (u ''abc'') (u ''T'') False)
               [result_row (UtanetSearcher (u ''abc'') (u ''T'') False) [element (u ''Axy'') None] [element [] (Some (u ''/song/2/''))]]
             = Inr url))
   \<and> find_lyrics_link ascii_lower (UtanetSearcher (u ''abc'') (u ''T'') True)
       [result_row (UtanetSearcher (u ''abc'') (u ''T'') True) [] [element [] (Some (u ''/song/0/''))],
        result_row (UtanetSearcher (u ''abc'') (u ''T'') True) [element (u ''xyz'') None] [element [] (Some (u ''/song/1/''))],
        result_row (UtanetSearcher (u ''abc'') (u ''T'') True) [element (u ''abc'') None] []]
     = Inl AttributeError
   \<and> find_lyrics_link ascii_lower (UtanetSearcher (u ''abc'') (u ''T'') True)
       [result_row (UtanetSearcher (u ''abc'') (u ''T'') True) [element (u ''xyz'') None] [element [] (Some (u ''/song/1/''))],
        result_row (UtanetSearcher (u ''abc'') (u ''T'') True) [element (u ''abc'') None] [element [] None]]
     = Inl TypeError
   \<and> find_lyrics_link ascii_lower (UtanetSearcher (u ''abc'') (u ''T'') False)
       [result_row (UtanetSearcher (u ''abc'') (u ''T'') False) [element (u ''xyz'') None] [element [] (Some (u ''/song/1/''))],
        result_row (UtanetSearcher (u ''abc'') (u ''T'') False) [element [] None] [element [] (Some (u ''/song/2/''))]]
     = Inl IndexError
   \<and> (\<exists>pre c rest a.
         [result_row (UtanetSearcher (u ''abc'') (u ''T'') False) [element (u ''xyz'') None] [element [] (Some (u ''/song/1/''))],
          result_row (UtanetSearcher (u ''abc'') (u ''T'') False) [element [] None] [element [] (Some (u ''/song/2/''))]] = pre @ c # rest
         \<and> list_all (passed_over ascii_lower (UtanetSearcher (u ''abc'') (u ''T'') False)
               (length [result_row (UtanetSearcher (u ''abc'') (u ''T'') False) [element (u ''xyz'') None] [element [] (Some (u ''/song/1/''))],
                        result_row (UtanetSearcher (u ''abc'') (u ''T'') False) [element [] None] [element [] (Some (u ''/song/2/''))]])) pre
         \<and> select_one c (search_result_artist_css_selector (UtanetSearcher (u ''abc'') (u ''T'') False)) = Some a)"
proof -
  let ?sf = "(UtanetSearcher (u ''abc'') (u ''T'') False)"
  let ?st = "(UtanetSearcher (u ''abc'') (u ''T'') True)"
  let ?ok = "[result_row ?sf [element (u ''Axy'') None] [element [] (Some (u ''/song/2/''))]]"
  let ?p0 = "result_row ?st [] [element [] (Some (u ''/song/0/''))]"
  let ?p1 = "result_row ?st [element (u ''xyz'') None] [element [] (Some (u ''/song/1/''))]"
  let ?c1 = "result_row ?st [element (u ''abc'') None] []"
  let ?c2 = "result_row ?st [element (u ''abc'') None] [element [] None]"
  let ?q1 = "result_row ?sf [element (u ''xyz'') None] [element [] (Some (u ''/song/1/''))]"
  let ?c3 = "result_row ?sf [element [] None] [element [] (Some (u ''/song/2/''))]"
  have pre: "selection_precondition ?sf ?ok"
    by (simp add: selection_precondition_def has_url_def run_defs UtanetSearcher_def u_def)
  have over1: "list_all (passed_over ascii_lower ?st (length [?p0, ?p1, ?c1])) [?p0, ?p1]"
    by (simp add: passed_over_def has_url_def run_defs UtanetSearcher_def u_def)
  have a1: "select_one ?c1 (search_result_artist_css_selector ?st) = Some (element (u ''abc'') None)"
    and l1: "select_one ?c1 (search_result_lyrics_link_css_selector ?st) = None"
    by (simp_all add: run_defs UtanetSearcher_def u_def)
  have over2: "list_all (passed_over ascii_lower ?st (length [?p1, ?c2])) [?p1]"
    by (simp add: passed_over_def has_url_def run_defs UtanetSearcher_def u_def)
  have a2: "select_one ?c2 (search_result_artist_css_selector ?st) = Some (element (u ''abc'') None)"
    and l2: "select_one ?c2 (search_result_lyrics_link_css_selector ?st) = Some (element [] None)"
    and h2: "tag_href (element [] None) = None"
    by (simp_all add: run_defs UtanetSearcher_def u_def)
  have over3: "list_all (passed_over ascii_lower ?sf (length [?q1, ?c3])) [?q1]"
    by (simp add: passed_over_def has_url_def run_defs UtanetSearcher_def u_def)
  have a3: "select_one ?c3 (search_result_artist_css_selector ?sf) = Some (element [] None)"
    and u3: "has_url ?sf ?c3"
    and t3: "tag_text (element [] None) = []"
    and s3: "\<not> strict ?sf" "tag_text (element [] None) \<noteq> artist ?sf"
    by (simp_all add: has_url_def run_defs UtanetSearcher_def u_def)
  have d1: "[?p0, ?p1, ?c1] = [?p0, ?p1] @ ?c1 # []" and d2: "[?p1, ?c2] = [?p1] @ ?c2 # []"
    and d3: "[?q1, ?c3] = [?q1] @ ?c3 # []"
    by simp_all
  from selection_failure_modes[of ?sf ?ok ascii_lower] pre
  have r0: "find_lyrics_link ascii_lower ?sf ?ok = Inl LyricsNotFoundError
            \<or> (\<exists>url. find_lyrics_link ascii_lower ?sf ?ok = Inr url)"
    by blast
  from selection_failure_modes[of ?st "[?p0, ?p1, ?c1]" ascii_lower] d1 over1 a1 l1
  have r1: "find_lyrics_link ascii_lower ?st [?p0, ?p1, ?c1] = Inl AttributeError"
    by blast
  from selection_failure_modes[of ?st "[?p1, ?c2]" ascii_lower] d2 over2 a2 l2 h2
  have r2: "find_lyrics_link ascii_lower ?st [?p1, ?c2] = Inl TypeError"
    by blast
  from selection_failure_modes[of ?sf "[?q1, ?c3]" ascii_lower] d3 over3 a3 u3 t3 s3
  have r3: "find_lyrics_link ascii_lower ?sf [?q1, ?c3] = Inl IndexError"
    by blast
  from selection_failure_modes[of ?sf "[?q1, ?c3]" ascii_lower] r3
  have r4: "\<exists>pre c rest a. [?q1, ?c3] = pre @ c # rest
         \<and> list_all (passed_over ascii_lower ?sf (length [?q1, ?c3])) pre
         \<and> select_one c (search_result_artist_css_selector ?sf) = Some a"
    by blast
  from pre r0 r1 r2 r3 r4 show ?thesis by blast
qed

end
